theory Spec2Isabelle
  imports Main
begin

section \<open>The rendered DOM\<close>

text \<open>
  \<^verbatim>\<open>ve.ce.MWTransclusionNode\<close> works on DOM nodes. A node is an element (its name, its
  attributes in document order, its children), a text node or a comment. Strings are
  \<^typ>\<open>string\<close>; an attribute list is read from the left, as \<^verbatim>\<open>getAttribute\<close> does.
\<close>

type_synonym attributes = "(string \<times> string) list"

datatype node =
    Element string attributes "node list"
  | TextNode string
  | Comment string

definition ELEMENT_NODE :: nat where
  "ELEMENT_NODE = 1"

definition TEXT_NODE :: nat where
  "TEXT_NODE = 3"

definition COMMENT_NODE :: nat where
  "COMMENT_NODE = 8"

fun nodeType :: "node \<Rightarrow> nat" where
  "nodeType (Element name attrs children) = ELEMENT_NODE"
| "nodeType (TextNode text) = TEXT_NODE"
| "nodeType (Comment text) = COMMENT_NODE"

fun nodeName :: "node \<Rightarrow> string" where
  "nodeName (Element name attrs children) = name"
| "nodeName (TextNode text) = ''#text''"
| "nodeName (Comment text) = ''#comment''"

fun childNodes :: "node \<Rightarrow> node list" where
  "childNodes (Element name attrs children) = children"
| "childNodes (TextNode text) = []"
| "childNodes (Comment text) = []"

fun data :: "node \<Rightarrow> string" where
  "data (Element name attrs children) = []"
| "data (TextNode text) = text"
| "data (Comment text) = text"

fun hasAttribute :: "node \<Rightarrow> string \<Rightarrow> bool" where
  "hasAttribute (Element name attrs children) key = (map_of attrs key \<noteq> None)"
| "hasAttribute (TextNode text) key = False"
| "hasAttribute (Comment text) key = False"

fun getAttribute :: "node \<Rightarrow> string \<Rightarrow> string option" where
  "getAttribute (Element name attrs children) key = map_of attrs key"
| "getAttribute (TextNode text) key = None"
| "getAttribute (Comment text) key = None"

text \<open>
  \<^verbatim>\<open>String.prototype.toLowerCase\<close> on the ASCII letters. Characters outside ASCII are
  left as they are; no character but \<^verbatim>\<open>P\<close> and \<^verbatim>\<open>p\<close> lowercases to \<^verbatim>\<open>p\<close> in
  JavaScript either, which is the only comparison the code makes.
\<close>

definition lower_char :: "char \<Rightarrow> char" where
  "lower_char c =
     (case map_of (zip ''ABCDEFGHIJKLMNOPQRSTUVWXYZ'' ''abcdefghijklmnopqrstuvwxyz'') c of
        None \<Rightarrow> c
      | Some l \<Rightarrow> l)"

definition toLowerCase :: "string \<Rightarrow> string" where
  "toLowerCase s = map lower_char s"

section \<open>Exceptions\<close>

datatype js_error = SyntaxError | TypeError

section \<open>JSON.parse\<close>

text \<open>
  The built-in \<^verbatim>\<open>JSON.parse\<close>, by the JSON grammar (ECMA-404): a lexer that reads the
  text one character at a time, and a parser that reads the tokens one at a time and
  keeps the open arrays and objects on a stack. A text outside the grammar raises
  \<^verbatim>\<open>SyntaxError\<close>. String values are lists of code units, so that a \<^verbatim>\<open>\uXXXX\<close>
  escape has its value; \<^term>\<open>JNumber m e\<close> is the number \<open>m * 10 ^ e\<close>.
\<close>

datatype json =
    JNull
  | JBool bool
  | JNumber int int
  | JString "nat list"
  | JArray "json list"
  | JObject "(nat list \<times> json) list"

datatype token =
    TLBrace | TRBrace | TLBracket | TRBracket | TColon | TComma
  | TString "nat list" | TNumber int int | TTrue | TFalse | TNull

datatype num_phase =
    AfterMinus | AfterZero | IntDigits | AfterPoint | FracDigits
  | AfterE | AfterESign | ExpDigits

record num_lit =
  negative :: bool
  mantissa :: nat
  frac_len :: nat
  exp_negative :: bool
  exp_digits :: nat

datatype lex_state =
    Between
  | InString "nat list"
  | InEscape "nat list"
  | InUnicode "nat list" "nat list"
  | InLiteral string token
  | InNumber num_phase num_lit

definition digit_of :: "char \<Rightarrow> nat option" where
  "digit_of c = map_of (zip ''0123456789'' [0, 1, 2, 3, 4, 5, 6, 7, 8, 9]) c"

definition hex_of :: "char \<Rightarrow> nat option" where
  "hex_of c =
     map_of (zip ''0123456789abcdefABCDEF''
       [0, 1, 2, 3, 4, 5, 6, 7, 8, 9, 10, 11, 12, 13, 14, 15, 10, 11, 12, 13, 14, 15]) c"

definition escape_of :: "char \<Rightarrow> nat option" where
  "escape_of c =
     map_of (zip [CHR 0x22, CHR 0x5C, CHR ''/'', CHR ''b'', CHR ''f'', CHR ''n'', CHR ''r'', CHR ''t'']
       [34, 92, 47, 8, 12, 10, 13, 9]) c"

definition number_token :: "num_lit \<Rightarrow> token" where
  "number_token n =
     TNumber (if negative n then - int (mantissa n) else int (mantissa n))
       ((if exp_negative n then - int (exp_digits n) else int (exp_digits n)) - int (frac_len n))"

definition new_number :: "bool \<Rightarrow> nat \<Rightarrow> num_lit" where
  "new_number neg d =
     \<lparr>negative = neg, mantissa = d, frac_len = 0, exp_negative = False, exp_digits = 0\<rparr>"

definition lex_between :: "char \<Rightarrow> (token list \<times> lex_state) option" where
  "lex_between c =
     (if c = CHR '' '' \<or> c = CHR 0x09 \<or> c = CHR 0x0A \<or> c = CHR 0x0D then Some ([], Between)
      else if c = CHR ''{'' then Some ([TLBrace], Between)
      else if c = CHR ''}'' then Some ([TRBrace], Between)
      else if c = CHR ''['' then Some ([TLBracket], Between)
      else if c = CHR '']'' then Some ([TRBracket], Between)
      else if c = CHR '':'' then Some ([TColon], Between)
      else if c = CHR '','' then Some ([TComma], Between)
      else if c = CHR 0x22 then Some ([], InString [])
      else if c = CHR ''t'' then Some ([], InLiteral ''rue'' TTrue)
      else if c = CHR ''f'' then Some ([], InLiteral ''alse'' TFalse)
      else if c = CHR ''n'' then Some ([], InLiteral ''ull'' TNull)
      else if c = CHR ''-'' then Some ([], InNumber AfterMinus (new_number True 0))
      else if c = CHR ''0'' then Some ([], InNumber AfterZero (new_number False 0))
      else (case digit_of c of
              None \<Rightarrow> None
            | Some d \<Rightarrow> Some ([], InNumber IntDigits (new_number False d))))"

definition end_number :: "num_lit \<Rightarrow> char \<Rightarrow> (token list \<times> lex_state) option" where
  "end_number n c =
     (case lex_between c of
        None \<Rightarrow> None
      | Some (toks, st) \<Rightarrow> Some (number_token n # toks, st))"

definition is_e :: "char \<Rightarrow> bool" where
  "is_e c = (c = CHR ''e'' \<or> c = CHR ''E'')"

fun lex_number :: "num_phase \<Rightarrow> num_lit \<Rightarrow> char \<Rightarrow> (token list \<times> lex_state) option" where
  "lex_number AfterMinus n c =
     (if c = CHR ''0'' then Some ([], InNumber AfterZero n)
      else (case digit_of c of
              None \<Rightarrow> None
            | Some d \<Rightarrow> Some ([], InNumber IntDigits (n\<lparr>mantissa := d\<rparr>))))"
| "lex_number AfterZero n c =
     (if c = CHR ''.'' then Some ([], InNumber AfterPoint n)
      else if is_e c then Some ([], InNumber AfterE n)
      else end_number n c)"
| "lex_number IntDigits n c =
     (case digit_of c of
        Some d \<Rightarrow> Some ([], InNumber IntDigits (n\<lparr>mantissa := 10 * mantissa n + d\<rparr>))
      | None \<Rightarrow>
          (if c = CHR ''.'' then Some ([], InNumber AfterPoint n)
           else if is_e c then Some ([], InNumber AfterE n)
           else end_number n c))"
| "lex_number AfterPoint n c =
     (case digit_of c of
        Some d \<Rightarrow>
          Some ([], InNumber FracDigits
            (n\<lparr>mantissa := 10 * mantissa n + d, frac_len := frac_len n + 1\<rparr>))
      | None \<Rightarrow> None)"
| "lex_number FracDigits n c =
     (case digit_of c of
        Some d \<Rightarrow>
          Some ([], InNumber FracDigits
            (n\<lparr>mantissa := 10 * mantissa n + d, frac_len := frac_len n + 1\<rparr>))
      | None \<Rightarrow> (if is_e c then Some ([], InNumber AfterE n) else end_number n c))"
| "lex_number AfterE n c =
     (if c = CHR ''+'' then Some ([], InNumber AfterESign n)
      else if c = CHR ''-'' then Some ([], InNumber AfterESign (n\<lparr>exp_negative := True\<rparr>))
      else (case digit_of c of
              None \<Rightarrow> None
            | Some d \<Rightarrow> Some ([], InNumber ExpDigits (n\<lparr>exp_digits := d\<rparr>))))"
| "lex_number AfterESign n c =
     (case digit_of c of
        None \<Rightarrow> None
      | Some d \<Rightarrow> Some ([], InNumber ExpDigits (n\<lparr>exp_digits := d\<rparr>)))"
| "lex_number ExpDigits n c =
     (case digit_of c of
        Some d \<Rightarrow> Some ([], InNumber ExpDigits (n\<lparr>exp_digits := 10 * exp_digits n + d\<rparr>))
      | None \<Rightarrow> end_number n c)"

fun lex_step :: "lex_state \<Rightarrow> char \<Rightarrow> (token list \<times> lex_state) option" where
  "lex_step Between c = lex_between c"
| "lex_step (InString acc) c =
     (if c = CHR 0x22 then Some ([TString acc], Between)
      else if c = CHR 0x5C then Some ([], InEscape acc)
      else if (of_char c :: nat) < 32 then None
      else Some ([], InString (acc @ [of_char c])))"
| "lex_step (InEscape acc) c =
     (if c = CHR ''u'' then Some ([], InUnicode acc [])
      else (case escape_of c of
              None \<Rightarrow> None
            | Some u \<Rightarrow> Some ([], InString (acc @ [u]))))"
| "lex_step (InUnicode acc hs) c =
     (case hex_of c of
        None \<Rightarrow> None
      | Some h \<Rightarrow>
          (if length hs = 3
           then Some ([], InString (acc @ [foldl (\<lambda>v x. 16 * v + x) 0 (hs @ [h])]))
           else Some ([], InUnicode acc (hs @ [h]))))"
| "lex_step (InLiteral rest tok) c =
     (case rest of
        [] \<Rightarrow> None
      | x # xs \<Rightarrow>
          (if c \<noteq> x then None
           else if xs = [] then Some ([tok], Between)
           else Some ([], InLiteral xs tok)))"
| "lex_step (InNumber phase n) c = lex_number phase n c"

fun lex_end :: "lex_state \<Rightarrow> token list option" where
  "lex_end Between = Some []"
| "lex_end (InNumber phase n) =
     (if phase = AfterZero \<or> phase = IntDigits \<or> phase = FracDigits \<or> phase = ExpDigits
      then Some [number_token n] else None)"
| "lex_end (InString acc) = None"
| "lex_end (InEscape acc) = None"
| "lex_end (InUnicode acc hs) = None"
| "lex_end (InLiteral rest tok) = None"

fun lex :: "lex_state \<Rightarrow> string \<Rightarrow> token list option" where
  "lex st [] = lex_end st"
| "lex st (c # cs) =
     (case lex_step st c of
        None \<Rightarrow> None
      | Some (toks, st') \<Rightarrow>
          (case lex st' cs of
             None \<Rightarrow> None
           | Some rest \<Rightarrow> Some (toks @ rest)))"

datatype frame =
    InArray "json list"
  | InObject "(nat list \<times> json) list"
  | InMember "(nat list \<times> json) list" "nat list"

datatype expect =
    Value | ValueOrClose | KeyOrClose | Key | Colon | CommaOrClose | Finished json

fun put_value :: "json \<Rightarrow> frame list \<Rightarrow> (expect \<times> frame list) option" where
  "put_value v [] = Some (Finished v, [])"
| "put_value v (InArray items # stack) = Some (CommaOrClose, InArray (items @ [v]) # stack)"
| "put_value v (InMember members key # stack) =
     Some (CommaOrClose, InObject (members @ [(key, v)]) # stack)"
| "put_value v (InObject members # stack) = None"

fun close_array :: "frame list \<Rightarrow> (expect \<times> frame list) option" where
  "close_array (InArray items # stack) = put_value (JArray items) stack"
| "close_array stack = None"

fun close_object :: "frame list \<Rightarrow> (expect \<times> frame list) option" where
  "close_object (InObject members # stack) = put_value (JObject members) stack"
| "close_object stack = None"

fun open_member :: "nat list \<Rightarrow> frame list \<Rightarrow> (expect \<times> frame list) option" where
  "open_member key (InObject members # stack) = Some (Colon, InMember members key # stack)"
| "open_member key stack = None"

fun start_value :: "token \<Rightarrow> frame list \<Rightarrow> (expect \<times> frame list) option" where
  "start_value TLBracket stack = Some (ValueOrClose, InArray [] # stack)"
| "start_value TLBrace stack = Some (KeyOrClose, InObject [] # stack)"
| "start_value (TString s) stack = put_value (JString s) stack"
| "start_value (TNumber m e) stack = put_value (JNumber m e) stack"
| "start_value TTrue stack = put_value (JBool True) stack"
| "start_value TFalse stack = put_value (JBool False) stack"
| "start_value TNull stack = put_value JNull stack"
| "start_value TRBrace stack = None"
| "start_value TRBracket stack = None"
| "start_value TColon stack = None"
| "start_value TComma stack = None"

fun after_comma :: "frame list \<Rightarrow> (expect \<times> frame list) option" where
  "after_comma (InArray items # stack) = Some (Value, InArray items # stack)"
| "after_comma (InObject members # stack) = Some (Key, InObject members # stack)"
| "after_comma stack = None"

fun parse_step :: "expect \<Rightarrow> frame list \<Rightarrow> token \<Rightarrow> (expect \<times> frame list) option" where
  "parse_step Value stack tok = start_value tok stack"
| "parse_step ValueOrClose stack tok =
     (if tok = TRBracket then close_array stack else start_value tok stack)"
| "parse_step KeyOrClose stack tok =
     (case tok of
        TString key \<Rightarrow> open_member key stack
      | TRBrace \<Rightarrow> close_object stack
      | _ \<Rightarrow> None)"
| "parse_step Key stack tok =
     (case tok of TString key \<Rightarrow> open_member key stack | _ \<Rightarrow> None)"
| "parse_step Colon stack tok = (if tok = TColon then Some (Value, stack) else None)"
| "parse_step CommaOrClose stack tok =
     (case tok of
        TComma \<Rightarrow> after_comma stack
      | TRBracket \<Rightarrow> close_array stack
      | TRBrace \<Rightarrow> close_object stack
      | _ \<Rightarrow> None)"
| "parse_step (Finished v) stack tok = None"

fun parse_tokens :: "expect \<Rightarrow> frame list \<Rightarrow> token list \<Rightarrow> json option" where
  "parse_tokens e stack [] = (case e of Finished v \<Rightarrow> Some v | _ \<Rightarrow> None)"
| "parse_tokens e stack (tok # toks) =
     (case parse_step e stack tok of
        None \<Rightarrow> None
      | Some (e', stack') \<Rightarrow> parse_tokens e' stack' toks)"

definition JSON_parse :: "string \<Rightarrow> js_error + json" where
  "JSON_parse text =
     (case lex Between text of
        None \<Rightarrow> Inl SyntaxError
      | Some toks \<Rightarrow>
          (case parse_tokens Value [] toks of
             None \<Rightarrow> Inl SyntaxError
           | Some v \<Rightarrow> Inr v))"

text \<open>
  Truthiness of a parsed value. A number is falsy when it is zero as a double, that is
  when it is \<open>0\<close> or no larger than \<open>2 ^ -1075\<close>, half the smallest double.
\<close>

definition number_is_zero :: "int \<Rightarrow> int \<Rightarrow> bool" where
  "number_is_zero m e =
     (m = 0 \<or> (e < 0 \<and> \<bar>m\<bar> * 2 ^ 1075 \<le> 10 ^ nat (- e)))"

fun truthy :: "json \<Rightarrow> bool" where
  "truthy JNull = False"
| "truthy (JBool b) = b"
| "truthy (JNumber m e) = (\<not> number_is_zero m e)"
| "truthy (JString s) = (s \<noteq> [])"
| "truthy (JArray items) = True"
| "truthy (JObject members) = True"

text \<open>
  \<^verbatim>\<open>dataMw.autoGenerated\<close>: the property of an object, the last member of that name when
  the text repeats it; \<^verbatim>\<open>undefined\<close> on every other value.
\<close>

fun autoGenerated :: "json \<Rightarrow> json option" where
  "autoGenerated (JObject members) = map_of (rev members) (map of_char ''autoGenerated'')"
| "autoGenerated JNull = None"
| "autoGenerated (JBool b) = None"
| "autoGenerated (JNumber m e) = None"
| "autoGenerated (JString s) = None"
| "autoGenerated (JArray items) = None"

definition truthy_property :: "json option \<Rightarrow> bool" where
  "truthy_property p = (case p of None \<Rightarrow> False | Some v \<Rightarrow> truthy v)"

section \<open>filterRendering\<close>

text \<open>
  \<^verbatim>\<open>Array.prototype.filter\<close> with a callback that can throw: the elements are visited
  from the left and the first exception ends the call.
\<close>

fun filter_throwing :: "('a \<Rightarrow> js_error + bool) \<Rightarrow> 'a list \<Rightarrow> js_error + 'a list" where
  "filter_throwing f [] = Inr []"
| "filter_throwing f (x # xs) =
     (case f x of
        Inl e \<Rightarrow> Inl e
      | Inr keep \<Rightarrow>
          (case filter_throwing f xs of
             Inl e \<Rightarrow> Inl e
           | Inr ys \<Rightarrow> Inr (if keep then x # ys else ys)))"

text \<open>
  The callback of the first step, lines 124 to 131: \<^verbatim>\<open>dataMw\<close> is falsy for a node that
  is no element or has no \<^verbatim>\<open>data-mw\<close> attribute, and the parsed attribute otherwise;
  the node is kept when \<^verbatim>\<open>!dataMw || !dataMw.autoGenerated\<close>.
\<close>

definition notAutoGenerated :: "node \<Rightarrow> js_error + bool" where
  "notAutoGenerated node =
     (if nodeType node = ELEMENT_NODE \<and> hasAttribute node ''data-mw''
      then (case getAttribute node ''data-mw'' of
              None \<Rightarrow> Inr True
            | Some text \<Rightarrow>
                (case JSON_parse text of
                   Inl e \<Rightarrow> Inl e
                 | Inr dataMw \<Rightarrow>
                     Inr (\<not> truthy dataMw \<or> \<not> truthy_property (autoGenerated dataMw))))
      else Inr True)"

text \<open>
  A helper that is handed an element and changes it in place, returning nothing, can
  change the element's attributes and descendants, never its name or its kind. Such a
  helper is a function from the element's name, attributes and children to the
  attributes and children it leaves behind.
\<close>

type_synonym dom_helper = "string \<Rightarrow> attributes \<Rightarrow> node list \<Rightarrow> attributes \<times> node list"

fun applyToElement :: "dom_helper \<Rightarrow> node \<Rightarrow> node" where
  "applyToElement helper (Element name attrs children) =
     (case helper name attrs children of (attrs', children') \<Rightarrow> Element name attrs' children')"
| "applyToElement helper (TextNode text) = TextNode text"
| "applyToElement helper (Comment text) = Comment text"

text \<open>
  Lines 133 to 137. \<^verbatim>\<open>mw.libs.ve.stripParsoidFallbackIds\<close> is defined elsewhere: it is
  a parameter.
\<close>

definition stripElements :: "dom_helper \<Rightarrow> node list \<Rightarrow> node list" where
  "stripElements stripParsoidFallbackIds contentNodes =
     map (\<lambda>node. if nodeType node = ELEMENT_NODE
                  then applyToElement stripParsoidFallbackIds node else node)
       contentNodes"

text \<open>
  Lines 121 and 139 to 141. \<^verbatim>\<open>ve.dm.Converter.static.whitespaceList\<close> is defined
  elsewhere too: the parameter \<open>whitespaceList\<close> holds the characters of the class the
  regular expression builds from it, and the expression accepts the non-empty strings
  of such characters.
\<close>

definition whitespaceRegex_test :: "string \<Rightarrow> string \<Rightarrow> bool" where
  "whitespaceRegex_test whitespaceList s = (s \<noteq> [] \<and> list_all (\<lambda>c. c \<in> set whitespaceList) s)"

definition isWhitespaceNode :: "string \<Rightarrow> node \<Rightarrow> bool" where
  "isWhitespaceNode whitespaceList node =
     (nodeType node = TEXT_NODE \<and> whitespaceRegex_test whitespaceList (data node))"

text \<open>The two loops of lines 143 to 148: \<^verbatim>\<open>shift\<close> from the front, \<^verbatim>\<open>pop\<close> from the end.\<close>

fun shiftWhitespace :: "string \<Rightarrow> node list \<Rightarrow> node list" where
  "shiftWhitespace whitespaceList [] = []"
| "shiftWhitespace whitespaceList (node # rest) =
     (if isWhitespaceNode whitespaceList node then shiftWhitespace whitespaceList rest
      else node # rest)"

function popWhitespace :: "string \<Rightarrow> node list \<Rightarrow> node list" where
  "popWhitespace whitespaceList contentNodes =
     (if contentNodes \<noteq> [] \<and> isWhitespaceNode whitespaceList (last contentNodes)
      then popWhitespace whitespaceList (butlast contentNodes)
      else contentNodes)"
  by pat_completeness auto
termination
  by (relation "measure (\<lambda>(whitespaceList, contentNodes). length contentNodes)") auto

declare popWhitespace.simps [simp del]

text \<open>Lines 149 to 154.\<close>

definition unwrapParagraph :: "node list \<Rightarrow> node list" where
  "unwrapParagraph contentNodes =
     (if length contentNodes = 1 \<and> toLowerCase (nodeName (contentNodes ! 0)) = ''p''
      then childNodes (contentNodes ! 0)
      else contentNodes)"

definition filterRendering ::
  "string \<Rightarrow> dom_helper \<Rightarrow> node list \<Rightarrow> js_error + node list" where
  "filterRendering whitespaceList stripParsoidFallbackIds contentNodes =
     (if length contentNodes = 0 then Inr []
      else (case filter_throwing notAutoGenerated contentNodes of
              Inl e \<Rightarrow> Inl e
            | Inr kept \<Rightarrow>
                Inr (unwrapParagraph
                  (popWhitespace whitespaceList
                    (shiftWhitespace whitespaceList
                      (stripElements stripParsoidFallbackIds kept))))))"

subsection \<open>The steps in the words of the specification\<close>

definition metadataParses :: "node \<Rightarrow> bool" where
  "metadataParses node =
     (case node of
        Element name attrs children \<Rightarrow>
          (case map_of attrs ''data-mw'' of
             None \<Rightarrow> True
           | Some text \<Rightarrow> \<not> isl (JSON_parse text))
      | _ \<Rightarrow> True)"

definition flaggedAutoGenerated :: "node \<Rightarrow> bool" where
  "flaggedAutoGenerated node =
     (case node of
        Element name attrs children \<Rightarrow>
          (case map_of attrs ''data-mw'' of
             None \<Rightarrow> False
           | Some text \<Rightarrow>
               (case JSON_parse text of
                  Inl e \<Rightarrow> False
                | Inr dataMw \<Rightarrow> truthy dataMw \<and> truthy_property (autoGenerated dataMw)))
      | _ \<Rightarrow> False)"


definition trimWhitespace :: "string \<Rightarrow> node list \<Rightarrow> node list" where
  "trimWhitespace whitespaceList nodes =
     rev (dropWhile (isWhitespaceNode whitespaceList)
       (rev (dropWhile (isWhitespaceNode whitespaceList) nodes)))"

definition isParagraph :: "node \<Rightarrow> bool" where
  "isParagraph node =
     (case node of
        Element name attrs children \<Rightarrow> name = ''p'' \<or> name = ''P''
      | _ \<Rightarrow> False)"

section \<open>Descriptions of the template parts\<close>

text \<open>
  A part of \<^verbatim>\<open>model.getPartsList()\<close>: the page of the template when the part is one,
  and the name as written. Either field can be missing, and a string is truthy when it
  is not empty.
\<close>

record part =
  templatePage :: "string option"
  template :: "string option"

definition truthy_string :: "string option \<Rightarrow> bool" where
  "truthy_string s = (case s of None \<Rightarrow> False | Some t \<Rightarrow> t \<noteq> [])"

text \<open>
  What the class uses of MediaWiki: \<^verbatim>\<open>mw.Title.newFromText\<close> (\<^verbatim>\<open>null\<close> is \<^term>\<open>None\<close>),
  the title's \<^verbatim>\<open>getRelativeText\<close> and \<^verbatim>\<open>getUrl\<close>, the id of the template namespace
  \<^verbatim>\<open>mw.config.get( 'wgNamespaceIds' ).template\<close> and the message
  \<^verbatim>\<open>ve.msg( 'comma-separator' )\<close>. All of them are defined elsewhere: they are
  parameters, and \<open>'t\<close> is the type of titles.
\<close>

record 't mediawiki =
  newFromText :: "string \<Rightarrow> 't option"
  getRelativeText :: "'t \<Rightarrow> int \<Rightarrow> string"
  getUrl :: "'t \<Rightarrow> string"
  wgNamespaceIds_template :: int
  comma_separator :: string

text \<open>
  \<^verbatim>\<open>Array.prototype.map\<close> with a callback that can throw, and \<^verbatim>\<open>Array.prototype.join\<close>.
\<close>

fun map_throwing :: "('a \<Rightarrow> js_error + 'b) \<Rightarrow> 'a list \<Rightarrow> js_error + 'b list" where
  "map_throwing f [] = Inr []"
| "map_throwing f (x # xs) =
     (case f x of
        Inl e \<Rightarrow> Inl e
      | Inr y \<Rightarrow>
          (case map_throwing f xs of
             Inl e \<Rightarrow> Inl e
           | Inr ys \<Rightarrow> Inr (y # ys)))"

fun join :: "string \<Rightarrow> string list \<Rightarrow> string" where
  "join separator [] = []"
| "join separator [x] = x"
| "join separator (x # y # rest) = x @ separator @ join separator (y # rest)"

text \<open>
  The callback of lines 57 to 64. Calling \<^verbatim>\<open>getRelativeText\<close> on \<^verbatim>\<open>null\<close> raises
  \<^verbatim>\<open>TypeError\<close>.
\<close>

definition describePart :: "'t mediawiki \<Rightarrow> part \<Rightarrow> js_error + string" where
  "describePart mw part =
     (if truthy_string (templatePage part)
      then (case newFromText mw (the (templatePage part)) of
              None \<Rightarrow> Inl TypeError
            | Some title \<Rightarrow> Inr (getRelativeText mw title (wgNamespaceIds_template mw)))
      else Inr (if truthy_string (template part) then the (template part) else []))"

text \<open>
  \<^verbatim>\<open>getDescription\<close>, lines 55 to 69. \<^verbatim>\<open>model.getPartsList()\<close> is a method of the model,
  which is defined elsewhere: the parameter \<open>getPartsList\<close> gives the list and the
  model as the call leaves it. The result is the description, or the exception, and the
  model after the call.
\<close>

definition getDescription ::
  "('m \<Rightarrow> part list \<times> 'm) \<Rightarrow> 't mediawiki \<Rightarrow> 'm \<Rightarrow> (js_error + string) \<times> 'm" where
  "getDescription getPartsList mw model =
     (case getPartsList model of
        (parts, model') \<Rightarrow>
          (case map_throwing (describePart mw) parts of
             Inl e \<Rightarrow> (Inl e, model')
           | Inr descs \<Rightarrow>
               (Inr (join (comma_separator mw) (filter (\<lambda>desc. desc \<noteq> []) descs)), model')))"

text \<open>
  \<^verbatim>\<open>document.createElement\<close>, \<^verbatim>\<open>document.createTextNode\<close>, the \<^verbatim>\<open>textContent\<close> setter (an
  empty string leaves the element without children), \<^verbatim>\<open>setAttribute\<close> and
  \<^verbatim>\<open>appendChild\<close>.
\<close>

definition createElement :: "string \<Rightarrow> node" where
  "createElement name = Element name [] []"

definition createTextNode :: "string \<Rightarrow> node" where
  "createTextNode text = TextNode text"

fun set_textContent :: "node \<Rightarrow> string \<Rightarrow> node" where
  "set_textContent (Element name attrs children) text =
     Element name attrs (if text = [] then [] else [TextNode text])"
| "set_textContent (TextNode old) text = TextNode text"
| "set_textContent (Comment old) text = Comment text"

fun setAttribute :: "node \<Rightarrow> string \<Rightarrow> string \<Rightarrow> node" where
  "setAttribute (Element name attrs children) key v =
     Element name
       (if map_of attrs key = None then attrs @ [(key, v)]
        else map (\<lambda>(k, old). if k = key then (k, v) else (k, old)) attrs)
       children"
| "setAttribute (TextNode text) key v = TextNode text"
| "setAttribute (Comment text) key v = Comment text"

fun appendChild :: "node \<Rightarrow> node \<Rightarrow> node" where
  "appendChild (Element name attrs children) child = Element name attrs (children @ [child])"
| "appendChild (TextNode text) child = TextNode text"
| "appendChild (Comment text) child = Comment text"

text \<open>The callback of lines 84 to 94; \<^verbatim>\<open>null\<close> is \<^term>\<open>None\<close>.\<close>

definition describePartDom :: "'t mediawiki \<Rightarrow> part \<Rightarrow> js_error + node option" where
  "describePartDom mw part =
     (if truthy_string (templatePage part)
      then (case newFromText mw (the (templatePage part)) of
              None \<Rightarrow> Inl TypeError
            | Some title \<Rightarrow>
                Inr (Some (setAttribute
                  (set_textContent (createElement ''a'')
                    (getRelativeText mw title (wgNamespaceIds_template mw)))
                  ''href'' (getUrl mw title))))
      else Inr (if truthy_string (template part)
                then Some (createTextNode (the (template part))) else None))"

text \<open>The filter of lines 95 to 97 keeps the nodes and drops each \<^verbatim>\<open>null\<close>.\<close>

fun withoutNull :: "'a option list \<Rightarrow> 'a list" where
  "withoutNull [] = []"
| "withoutNull (None # rest) = withoutNull rest"
| "withoutNull (Some x # rest) = x # withoutNull rest"

text \<open>
  The loop of lines 99 to 104 over the nodes that are left, with its index: a separator
  goes before every node but the first.
\<close>

fun appendNodes :: "string \<Rightarrow> node list \<Rightarrow> nat \<Rightarrow> node \<Rightarrow> node" where
  "appendNodes separator [] i span = span"
| "appendNodes separator (node # rest) i span =
     appendNodes separator rest (i + 1)
       (appendChild
         (if i \<noteq> 0 then appendChild span (createTextNode separator) else span)
         node)"

text \<open>
  \<^verbatim>\<open>getDescriptionDom\<close>, lines 82 to 107. \<^verbatim>\<open>ve.targetLinksToNewWindow\<close> is defined
  elsewhere: it is a parameter, a helper that changes the container in place.
\<close>

definition getDescriptionDom ::
  "('m \<Rightarrow> part list \<times> 'm) \<Rightarrow> 't mediawiki \<Rightarrow> dom_helper \<Rightarrow> 'm \<Rightarrow> (js_error + node) \<times> 'm" where
  "getDescriptionDom getPartsList mw targetLinksToNewWindow model =
     (case getPartsList model of
        (parts, model') \<Rightarrow>
          (case map_throwing (describePartDom mw) parts of
             Inl e \<Rightarrow> (Inl e, model')
           | Inr descs \<Rightarrow>
               (Inr (applyToElement targetLinksToNewWindow
                  (appendNodes (comma_separator mw) (withoutNull descs) 0
                    (createElement ''span''))),
                model')))"

subsection \<open>The descriptions in the words of the specification\<close>

text \<open>
  A \<open>templatePage\<close> that is set and names no title is unresolved; the display name and
  the URL of a page are those of its title.
\<close>

definition unresolved :: "'t mediawiki \<Rightarrow> part \<Rightarrow> bool" where
  "unresolved mw part =
     (case templatePage part of
        None \<Rightarrow> False
      | Some page \<Rightarrow> page \<noteq> [] \<and> newFromText mw page = None)"

definition displayName :: "'t mediawiki \<Rightarrow> string \<Rightarrow> string" where
  "displayName mw page =
     (case newFromText mw page of
        None \<Rightarrow> []
      | Some title \<Rightarrow> getRelativeText mw title (wgNamespaceIds_template mw))"

definition pageUrl :: "'t mediawiki \<Rightarrow> string \<Rightarrow> string" where
  "pageUrl mw page = (case newFromText mw page of None \<Rightarrow> [] | Some title \<Rightarrow> getUrl mw title)"

definition entryText :: "'t mediawiki \<Rightarrow> part \<Rightarrow> string list" where
  "entryText mw part =
     (case (templatePage part, template part) of
        (Some (c # page), _) \<Rightarrow>
          (if displayName mw (c # page) = [] then [] else [displayName mw (c # page)])
      | (_, Some (c # name)) \<Rightarrow> [c # name]
      | _ \<Rightarrow> [])"

definition entryNode :: "'t mediawiki \<Rightarrow> part \<Rightarrow> node list" where
  "entryNode mw part =
     (case (templatePage part, template part) of
        (Some (c # page), _) \<Rightarrow>
          [Element ''a'' [(''href'', pageUrl mw (c # page))]
             (if displayName mw (c # page) = [] then [] else [TextNode (displayName mw (c # page))])]
      | (_, Some (c # name)) \<Rightarrow> [TextNode (c # name)]
      | _ \<Rightarrow> [])"

fun separated :: "'a \<Rightarrow> 'a list \<Rightarrow> 'a list" where
  "separated s [] = []"
| "separated s [x] = [x]"
| "separated s (x # y # rest) = x # s # separated s (y # rest)"

text \<open>
  Modelled from the spec: \<^verbatim>\<open>ve.targetLinksToNewWindow\<close> is defined elsewhere. The
  specification says that the links produced are configured to open in a new browsing
  context: every \<^verbatim>\<open>a\<close> element inside the container gets \<^verbatim>\<open>target="_blank"\<close>. It stands
  for the parameter where a statement is tried on a concrete input.
\<close>

fun retargetLinks :: "node \<Rightarrow> node" where
  "retargetLinks (Element name attrs children) =
     (if toLowerCase name = ''a''
      then setAttribute (Element name attrs (map retargetLinks children)) ''target'' ''_blank''
      else Element name attrs (map retargetLinks children))"
| "retargetLinks (TextNode text) = TextNode text"
| "retargetLinks (Comment text) = Comment text"

definition targetLinksToNewWindow_model :: dom_helper where
  "targetLinksToNewWindow_model name attrs children = (attrs, map retargetLinks children)"

section \<open>Generating the contents\<close>

text \<open>
  \<^verbatim>\<open>generateContents\<close> (lines 177 to 188) asks the server to parse the wikitext and
  returns the promise of a fresh deferred, which the two callbacks settle. A deferred is
  pending until it is resolved or rejected, once; \<^verbatim>\<open>deferred.reject()\<close> passes no
  value.
\<close>

datatype deferred = Pending | Resolved "node list" | Rejected

fun resolve :: "deferred \<Rightarrow> node list \<Rightarrow> deferred" where
  "resolve Pending nodes = Resolved nodes"
| "resolve (Resolved old) nodes = Resolved old"
| "resolve Rejected nodes = Rejected"

fun reject :: "deferred \<Rightarrow> deferred" where
  "reject Pending = Rejected"
| "reject (Resolved old) = Resolved old"
| "reject Rejected = Rejected"

text \<open>
  The response of the server, \<^verbatim>\<open>{ visualeditor: { result: ..., content: ... } }\<close>, each
  property possibly missing, and \<^verbatim>\<open>ve.getProp( response, 'visualeditor', 'result' )\<close>,
  which is \<^verbatim>\<open>undefined\<close> when a step of the path is.
\<close>

record ve_payload =
  result :: "string option"
  content :: "string option"

record response =
  visualeditor :: "ve_payload option"

definition getProp_visualeditor_result :: "response \<Rightarrow> string option" where
  "getProp_visualeditor_result response =
     (case visualeditor response of None \<Rightarrow> None | Some payload \<Rightarrow> result payload)"

text \<open>Lines 261 to 263.\<close>

definition onParseError :: "deferred \<Rightarrow> deferred" where
  "onParseError deferred = reject deferred"

text \<open>
  \<^verbatim>\<open>onParseSuccess\<close>, lines 196 to 205. \<open>this_model\<close> is \<^verbatim>\<open>this.model\<close>, which the
  callback finds unset when the node has been torn down in the meantime.
  \<^verbatim>\<open>getModelHtmlDocument\<close> (a method of the node's base class that reads the model) and
  \<^verbatim>\<open>$.parseHTML\<close> are defined elsewhere: they are parameters, \<^term>\<open>None\<close> for a
  \<^verbatim>\<open>null\<close> result. The result is the exception that leaves the callback, if any, the
  deferred and the model after the call. An exception of \<^verbatim>\<open>filterRendering\<close> is raised
  before \<^verbatim>\<open>deferred.resolve\<close> is called, and nothing catches it.
\<close>

definition onParseSuccess ::
  "string \<Rightarrow> dom_helper \<Rightarrow> (string option \<Rightarrow> 'h option \<Rightarrow> node list option) \<Rightarrow>
   ('m \<Rightarrow> 'h option \<times> 'm) \<Rightarrow> 'm option \<Rightarrow> deferred \<Rightarrow> response \<Rightarrow>
   js_error option \<times> deferred \<times> 'm option" where
  "onParseSuccess whitespaceList stripParsoidFallbackIds parseHTML getModelHtmlDocument
       this_model deferred response =
     (if getProp_visualeditor_result response \<noteq> Some ''success''
      then (None, onParseError deferred, this_model)
      else
        (case (case this_model of
                 None \<Rightarrow> (None, None)
               | Some model \<Rightarrow>
                   (case getModelHtmlDocument model of (doc, model') \<Rightarrow> (doc, Some model'))) of
           (context, this_model') \<Rightarrow>
             (case filterRendering whitespaceList stripParsoidFallbackIds
                     (case parseHTML (content (the (visualeditor response))) context of
                        None \<Rightarrow> []
                      | Some contentNodes \<Rightarrow> contentNodes) of
                Inl e \<Rightarrow> (Some e, deferred, this_model')
              | Inr filtered \<Rightarrow> (None, resolve deferred filtered, this_model'))))"

text \<open>
  In the words of the specification: a response reports success when its status is the
  string \<^verbatim>\<open>success\<close>; the parsed content is what \<^verbatim>\<open>$.parseHTML\<close> makes of the
  response's HTML in the model's document, no node when it gives \<^verbatim>\<open>null\<close>.
\<close>

definition reportsSuccess :: "response \<Rightarrow> bool" where
  "reportsSuccess response =
     (case visualeditor response of
        None \<Rightarrow> False
      | Some payload \<Rightarrow> result payload = Some ''success'')"

definition parsedContent ::
  "(string option \<Rightarrow> 'h option \<Rightarrow> node list option) \<Rightarrow> ('m \<Rightarrow> 'h option \<times> 'm) \<Rightarrow>
   'm option \<Rightarrow> response \<Rightarrow> node list" where
  "parsedContent parseHTML getModelHtmlDocument this_model response =
     (case parseHTML (content (the (visualeditor response)))
             (case this_model of None \<Rightarrow> None | Some model \<Rightarrow> fst (getModelHtmlDocument model)) of
        None \<Rightarrow> []
      | Some contentNodes \<Rightarrow> contentNodes)"

text \<open>
  What the request to the server ends with: \<^verbatim>\<open>.done\<close> runs \<^verbatim>\<open>onParseSuccess\<close> with the
  response, \<^verbatim>\<open>.fail\<close> runs \<^verbatim>\<open>onParseError\<close> (lines 184 and 185).
\<close>

datatype outcome = Done response | Fail

fun settle ::
  "string \<Rightarrow> dom_helper \<Rightarrow> (string option \<Rightarrow> 'h option \<Rightarrow> node list option) \<Rightarrow>
   ('m \<Rightarrow> 'h option \<times> 'm) \<Rightarrow> 'm option \<Rightarrow> deferred \<Rightarrow> outcome \<Rightarrow>
   js_error option \<times> deferred \<times> 'm option" where
  "settle whitespaceList stripParsoidFallbackIds parseHTML getModelHtmlDocument
       this_model deferred (Done response) =
     onParseSuccess whitespaceList stripParsoidFallbackIds parseHTML getModelHtmlDocument
       this_model deferred response"
| "settle whitespaceList stripParsoidFallbackIds parseHTML getModelHtmlDocument
       this_model deferred Fail =
     (None, onParseError deferred, this_model)"

section \<open>Filtering the rendered elements\<close>

text \<open>
  The selector of line 251, as the browser matches it on HTML elements, where jQuery
  hands it: the element's name whatever its case; \<^verbatim>\<open>^=\<close> a prefix of the attribute's
  value, as written; \<^verbatim>\<open>~=\<close> one of the words of the value, and for \<^verbatim>\<open>rel\<close> whatever the
  case of its ASCII letters.
\<close>

definition startsWith :: "string \<Rightarrow> string \<Rightarrow> bool" where
  "startsWith prefix s = (take (length prefix) s = prefix)"

fun words_of :: "string \<Rightarrow> string \<Rightarrow> string list" where
  "words_of word [] = (if word = [] then [] else [word])"
| "words_of word (c # cs) =
     (if c = CHR '' '' \<or> c = CHR 0x09 \<or> c = CHR 0x0A \<or> c = CHR 0x0C \<or> c = CHR 0x0D
      then (if word = [] then words_of [] cs else word # words_of [] cs)
      else words_of (word @ [c]) cs)"

definition attr_prefix :: "attributes \<Rightarrow> string \<Rightarrow> string \<Rightarrow> bool" where
  "attr_prefix attrs key prefix =
     (case map_of attrs key of None \<Rightarrow> False | Some v \<Rightarrow> startsWith prefix v)"

definition attr_word_ci :: "attributes \<Rightarrow> string \<Rightarrow> string \<Rightarrow> bool" where
  "attr_word_ci attrs key word =
     (case map_of attrs key of
        None \<Rightarrow> False
      | Some v \<Rightarrow> toLowerCase word \<in> set (map toLowerCase (words_of [] v)))"

definition matches_selector :: "node \<Rightarrow> bool" where
  "matches_selector node =
     (case node of
        Element name attrs children \<Rightarrow>
          (toLowerCase name = ''style''
             \<and> \<not> attr_prefix attrs ''data-mw-deduplicate'' ''TemplateStyles:'')
          \<or> (toLowerCase name = ''link''
             \<and> \<not> (attr_word_ci attrs ''rel'' ''mw-deduplicated-inline-style''
                  \<and> attr_prefix attrs ''href'' ''mw-data:TemplateStyles:''))
      | _ \<Rightarrow> False)"

text \<open>
  The jQuery calls of line 252. A jQuery set is the list of its nodes. The given nodes
  are the roots of the rendering, each a tree of its own. Nodes are compared by what
  they are: a node equal to a node of a set made by the selector matches the selector as
  well, so it belongs to that set too.
\<close>

fun descendants :: "node \<Rightarrow> node list"
  and descendants_of_list :: "node list \<Rightarrow> node list" where
  "descendants (Element name attrs children) = descendants_of_list children"
| "descendants (TextNode text) = []"
| "descendants (Comment text) = []"
| "descendants_of_list [] = []"
| "descendants_of_list (child # rest) = child # descendants child @ descendants_of_list rest"

text \<open>\<^verbatim>\<open>.find( selector )\<close>: the descendants of the nodes of the set that match.\<close>

definition jQuery_find :: "node list \<Rightarrow> node list" where
  "jQuery_find nodes = concat (map (\<lambda>n. filter matches_selector (descendants n)) nodes)"

text \<open>
  \<^verbatim>\<open>.addBack( selector )\<close>: the set together with the nodes of the set before it that
  match.
\<close>

definition jQuery_addBack :: "node list \<Rightarrow> node list \<Rightarrow> node list" where
  "jQuery_addBack nodes prevObject = nodes @ filter matches_selector prevObject"

text \<open>
  \<^verbatim>\<open>.remove()\<close> takes every node of the set out of its parent. A given node has no parent
  among the nodes, so in the array of the given nodes the call shows only below them:
  \<open>without removed n\<close> is the given node \<open>n\<close> after it.
\<close>

fun without :: "node list \<Rightarrow> node \<Rightarrow> node"
  and without_children :: "node list \<Rightarrow> node list \<Rightarrow> node list" where
  "without removed (Element name attrs children) =
     Element name attrs (without_children removed children)"
| "without removed (TextNode text) = TextNode text"
| "without removed (Comment text) = Comment text"
| "without_children removed [] = []"
| "without_children removed (child # rest) =
     (if child \<in> set removed then without_children removed rest
      else without removed child # without_children removed rest)"

text \<open>
  \<^verbatim>\<open>filterRenderedDomElements\<close>, lines 249 to 253. \<^verbatim>\<open>.remove()\<close> returns the set it was
  called on; the first \<^verbatim>\<open>.end()\<close> goes back to the set of \<^verbatim>\<open>.find\<close>, the second to the set
  of the given nodes, and \<^verbatim>\<open>.toArray()\<close> returns the nodes of that set.
\<close>

definition filterRenderedDomElements :: "node list \<Rightarrow> node list" where
  "filterRenderedDomElements domElements =
     (let found = jQuery_find domElements;
          selected = jQuery_addBack found domElements
      in map (without selected) domElements)"

subsection \<open>In the words of the specification\<close>

text \<open>A node without its descendants that match the selector.\<close>

fun detach :: "node \<Rightarrow> node"
  and detach_children :: "node list \<Rightarrow> node list" where
  "detach (Element name attrs children) = Element name attrs (detach_children children)"
| "detach (TextNode text) = TextNode text"
| "detach (Comment text) = Comment text"
| "detach_children [] = []"
| "detach_children (child # rest) =
     (if matches_selector child then detach_children rest
      else detach child # detach_children rest)"

section \<open>filterRendering, step by step\<close>

lemma toLowerCase_p: "toLowerCase s = ''p'' \<longleftrightarrow> s = ''p'' \<or> s = ''P''"
proof
  assume a: "toLowerCase s = ''p''"
  then obtain c where s: "s = [c]" and c: "lower_char c = CHR ''p''"
    by (auto simp: toLowerCase_def)
  from c have "c = CHR ''p'' \<or> c = CHR ''P''"
    by (auto simp: lower_char_def split: if_splits option.splits)
  with s show "s = ''p'' \<or> s = ''P''" by auto
next
  assume "s = ''p'' \<or> s = ''P''"
  then show "toLowerCase s = ''p''"
    by (auto simp: toLowerCase_def lower_char_def)
qed

lemma notAutoGenerated_Inr:
  "metadataParses node \<Longrightarrow> notAutoGenerated node = Inr (\<not> flaggedAutoGenerated node)"
  by (cases node)
    (auto simp: metadataParses_def notAutoGenerated_def flaggedAutoGenerated_def
      ELEMENT_NODE_def TEXT_NODE_def COMMENT_NODE_def
      split: option.splits sum.splits)

lemma notAutoGenerated_Inl:
  "\<not> metadataParses node \<Longrightarrow> notAutoGenerated node = Inl SyntaxError"
  by (cases node)
    (auto simp: metadataParses_def notAutoGenerated_def JSON_parse_def
      ELEMENT_NODE_def split: option.splits sum.splits)

lemma filter_throwing_ok:
  "list_all metadataParses nodes \<Longrightarrow>
   filter_throwing notAutoGenerated nodes = Inr (filter (\<lambda>n. \<not> flaggedAutoGenerated n) nodes)"
  by (induction nodes) (auto simp: notAutoGenerated_Inr)

lemma filter_throwing_fails:
  "\<not> list_all metadataParses nodes \<Longrightarrow> filter_throwing notAutoGenerated nodes = Inl SyntaxError"
proof (induction nodes)
  case Nil
  then show ?case by simp
next
  case (Cons n nodes)
  show ?case
  proof (cases "metadataParses n")
    case True
    with Cons show ?thesis by (simp add: notAutoGenerated_Inr)
  next
    case False
    then show ?thesis by (simp add: notAutoGenerated_Inl)
  qed
qed

lemma shiftWhitespace_dropWhile:
  "shiftWhitespace ws nodes = dropWhile (isWhitespaceNode ws) nodes"
  by (induction nodes) auto

lemma popWhitespace_snoc:
  "popWhitespace ws (nodes @ [node]) =
     (if isWhitespaceNode ws node then popWhitespace ws nodes else nodes @ [node])"
  by (subst popWhitespace.simps) simp

lemma popWhitespace_Nil: "popWhitespace ws [] = []"
  by (subst popWhitespace.simps) simp

lemma popWhitespace_dropWhile:
  "popWhitespace ws nodes = rev (dropWhile (isWhitespaceNode ws) (rev nodes))"
  by (induction nodes rule: rev_induct) (simp_all add: popWhitespace_Nil popWhitespace_snoc)

lemma unwrapParagraph_cases:
  "unwrapParagraph nodes =
     (case nodes of
        [node] \<Rightarrow> if isParagraph node then childNodes node else nodes
      | _ \<Rightarrow> nodes)"
  by (cases nodes; cases "tl nodes"; cases "hd nodes")
    (auto simp: unwrapParagraph_def isParagraph_def toLowerCase_p)

lemma filterRendering_characterised:
  "filterRendering ws strip nodes =
     (if list_all metadataParses nodes
      then Inr (unwrapParagraph (trimWhitespace ws (stripElements strip
             (filter (\<lambda>n. \<not> flaggedAutoGenerated n) nodes))))
      else Inl SyntaxError)"
proof (cases "nodes = []")
  case True
  then show ?thesis
    by (simp add: filterRendering_def stripElements_def trimWhitespace_def unwrapParagraph_def)
next
  case False
  then show ?thesis
    by (simp add: filterRendering_def filter_throwing_ok filter_throwing_fails
        shiftWhitespace_dropWhile popWhitespace_dropWhile trimWhitespace_def)
qed


lemma dropWhile_keeps: "x \<in> set xs \<Longrightarrow> \<not> P x \<Longrightarrow> x \<in> set (dropWhile P xs)"
  by (induction xs) auto

lemma trimWhitespace_keeps:
  "x \<in> set xs \<Longrightarrow> \<not> isWhitespaceNode ws x \<Longrightarrow> x \<in> set (trimWhitespace ws xs)"
  unfolding trimWhitespace_def
  by (simp add: dropWhile_keeps)

lemma element_not_whitespace:
  "nodeType n = ELEMENT_NODE \<Longrightarrow> \<not> isWhitespaceNode ws (applyToElement strip n)"
  by (cases n) (auto simp: isWhitespaceNode_def ELEMENT_NODE_def TEXT_NODE_def COMMENT_NODE_def
      split: prod.splits)

lemma unflagged_element_remains:
  assumes "n \<in> set nodes" and "nodeType n = ELEMENT_NODE" and "\<not> flaggedAutoGenerated n"
  shows "applyToElement strip n \<in>
    set (trimWhitespace ws (stripElements strip (filter (\<lambda>n. \<not> flaggedAutoGenerated n) nodes)))"
proof -
  from assms have "applyToElement strip n \<in>
      set (stripElements strip (filter (\<lambda>n. \<not> flaggedAutoGenerated n) nodes))"
    by (force simp: stripElements_def)
  then show ?thesis
    using assms(2) by (intro trimWhitespace_keeps element_not_whitespace)
qed

lemma no_metadata_unflagged:
  "\<not> hasAttribute n ''data-mw'' \<Longrightarrow> metadataParses n \<and> \<not> flaggedAutoGenerated n"
  by (cases n) (auto simp: metadataParses_def flaggedAutoGenerated_def)

lemma parse_flag: \<open>JSON_parse ''{"autoGenerated":true}'' =
    Inr (JObject [(map of_char ''autoGenerated'', JBool True)])\<close>
  by (simp add: JSON_parse_def lex_between_def digit_of_def)

lemma parse_not_json: \<open>JSON_parse ''not json'' = Inl SyntaxError\<close>
  by (simp add: JSON_parse_def lex_between_def)

lemma parse_parts: \<open>JSON_parse ''{"parts":[]}'' = Inr (JObject [(map of_char ''parts'', JArray [])])\<close>
  by (simp add: JSON_parse_def lex_between_def digit_of_def)



lemma applyToElement_other: "nodeType n \<noteq> ELEMENT_NODE \<Longrightarrow> applyToElement strip n = n"
  by (cases n) (simp_all add: ELEMENT_NODE_def)

lemma stripElements_map: "stripElements strip nodes = map (applyToElement strip) nodes"
  unfolding stripElements_def
  by (rule map_cong [OF refl]) (simp add: applyToElement_other)


lemma isParagraph_applyToElement: "isParagraph (applyToElement strip n) = isParagraph n"
  by (cases n) (auto simp: isParagraph_def split: prod.splits)

lemma trimWhitespace_subset: "set (trimWhitespace ws nodes) \<subseteq> set nodes"
proof -
  have "set (trimWhitespace ws nodes) \<subseteq> set (dropWhile (isWhitespaceNode ws) nodes)"
    unfolding trimWhitespace_def using set_dropWhileD by fastforce
  also have "\<dots> \<subseteq> set nodes"
    using set_dropWhileD by fastforce
  finally show ?thesis .
qed

lemma unwrapParagraph_from:
  "x \<in> set (unwrapParagraph nodes) \<Longrightarrow>
   x \<in> set nodes \<or> (\<exists>n \<in> set nodes. x \<in> set (childNodes n))"
  by (cases nodes; cases "tl nodes") (auto simp: unwrapParagraph_cases split: if_splits)

lemma unwrapParagraph_keeps:
  "x \<in> set nodes \<Longrightarrow>
   x \<in> set (unwrapParagraph nodes) \<or> (isParagraph x \<and> unwrapParagraph nodes = childNodes x)"
  by (cases nodes; cases "tl nodes") (auto simp: unwrapParagraph_cases)



text \<open>
  Claim C3. When the metadata parse, \<^verbatim>\<open>filterRendering\<close> returns the children of the
  one node that is left after trimming when that node is a \<^verbatim>\<open>p\<close> element, and the
  sequence that is left after trimming in every other case. A paragraph around X between
  two spaces gives X alone when the space is a whitespace character, and two paragraphs
  are returned as they are; in both examples there is nothing to strip from the
  paragraphs.
\<close>

theorem filterRendering_unwraps_single_paragraph:
  "(list_all metadataParses nodes \<longrightarrow>
      filterRendering ws strip nodes =
        (let remaining = trimWhitespace ws (stripElements strip
               (filter (\<lambda>n. \<not> flaggedAutoGenerated n) nodes))
         in Inr (if length remaining = 1 \<and> isParagraph (hd remaining)
                 then childNodes (hd remaining) else remaining)))
   \<and> (CHR '' '' \<in> set ws \<and> strip ''p'' [] [X] = ([], [X]) \<longrightarrow>
        filterRendering ws strip [TextNode '' '', Element ''p'' [] [X], TextNode '' ''] = Inr [X])
   \<and> (strip ''p'' [] [A] = ([], [A]) \<and> strip ''p'' [] [B] = ([], [B]) \<longrightarrow>
        filterRendering ws strip [Element ''p'' [] [A], Element ''p'' [] [B]]
        = Inr [Element ''p'' [] [A], Element ''p'' [] [B]])"
proof (intro conjI impI)
  assume "list_all metadataParses nodes"
  then show "filterRendering ws strip nodes =
        (let remaining = trimWhitespace ws (stripElements strip
               (filter (\<lambda>n. \<not> flaggedAutoGenerated n) nodes))
         in Inr (if length remaining = 1 \<and> isParagraph (hd remaining)
                 then childNodes (hd remaining) else remaining))"
    by (auto simp: filterRendering_characterised unwrapParagraph_cases Let_def
        split: list.splits)
next
  assume h: "CHR '' '' \<in> set ws \<and> strip ''p'' [] [X] = ([], [X])"
  let ?nodes = "[TextNode '' '', Element ''p'' [] [X], TextNode '' '']"
  have "list_all metadataParses ?nodes"
    by (simp add: metadataParses_def)
  moreover have "filter (\<lambda>n. \<not> flaggedAutoGenerated n) ?nodes = ?nodes"
    by (simp add: flaggedAutoGenerated_def)
  moreover have "stripElements strip ?nodes = ?nodes"
    using h by (simp add: stripElements_def ELEMENT_NODE_def TEXT_NODE_def)
  moreover have "trimWhitespace ws ?nodes = [Element ''p'' [] [X]]"
    using h by (simp add: trimWhitespace_def isWhitespaceNode_def whitespaceRegex_test_def
        ELEMENT_NODE_def TEXT_NODE_def)
  moreover have "unwrapParagraph [Element ''p'' [] [X]] = [X]"
    by (simp add: unwrapParagraph_cases isParagraph_def)
  ultimately show "filterRendering ws strip ?nodes = Inr [X]"
    by (simp add: filterRendering_characterised)
next
  assume h: "strip ''p'' [] [A] = ([], [A]) \<and> strip ''p'' [] [B] = ([], [B])"
  let ?nodes = "[Element ''p'' [] [A], Element ''p'' [] [B]]"
  have "list_all metadataParses ?nodes"
    by (simp add: metadataParses_def)
  moreover have "filter (\<lambda>n. \<not> flaggedAutoGenerated n) ?nodes = ?nodes"
    by (simp add: flaggedAutoGenerated_def)
  moreover have "stripElements strip ?nodes = ?nodes"
    using h by (simp add: stripElements_def)
  moreover have "trimWhitespace ws ?nodes = ?nodes"
    by (simp add: trimWhitespace_def isWhitespaceNode_def ELEMENT_NODE_def TEXT_NODE_def)
  moreover have "unwrapParagraph ?nodes = ?nodes"
    by (simp add: unwrapParagraph_cases)
  ultimately show "filterRendering ws strip ?nodes = Inr ?nodes"
    by (simp add: filterRendering_characterised)
qed

theorem filterRendering_unwraps_single_paragraph_witness:
  "filterRendering [CHR '' '', CHR 0x0A] (\<lambda>name attrs children. (attrs, children))
     [TextNode '' '', Element ''p'' [] [TextNode ''X''], TextNode '' ''] = Inr [TextNode ''X'']
   \<and> filterRendering [CHR '' '', CHR 0x0A] (\<lambda>name attrs children. (attrs, children))
     [Element ''p'' [] [TextNode ''A''], Element ''p'' [] [TextNode ''B'']]
     = Inr [Element ''p'' [] [TextNode ''A''], Element ''p'' [] [TextNode ''B'']]
   \<and> filterRendering [CHR '' '', CHR 0x0A] (\<lambda>name attrs children. (attrs, children))
     [Comment ''c'', Element ''P'' [] [TextNode ''X'']]
     = Inr [Comment ''c'', Element ''P'' [] [TextNode ''X'']]"
  using filterRendering_unwraps_single_paragraph
    [of \<open>[Comment ''c'', Element ''P'' [] [TextNode ''X'']]\<close> \<open>[CHR '' '', CHR 0x0A]\<close>
      \<open>\<lambda>name attrs children. (attrs, children)\<close> \<open>TextNode ''X''\<close> \<open>TextNode ''A''\<close> \<open>TextNode ''B''\<close>]
  by (simp add: metadataParses_def flaggedAutoGenerated_def stripElements_def
      trimWhitespace_def isWhitespaceNode_def whitespaceRegex_test_def isParagraph_def
      ELEMENT_NODE_def TEXT_NODE_def COMMENT_NODE_def)

text \<open>
  Claim C4, as amended. \<^verbatim>\<open>filterRendering\<close> returns on a sequence of nodes exactly when
  every \<^verbatim>\<open>data-mw\<close> attribute of its elements parses as JSON. What it returns then has
  lost no element but the flagged ones: each element of the input that is not flagged,
  and so each element without the attribute, is in the result, stripped, unless it is the
  single paragraph that is left, in which case the result is its children; and each node
  of the result is a node of the input that is not flagged, stripped, or a child of one.
  When an attribute does not parse, \<^verbatim>\<open>JSON.parse\<close> raises \<^verbatim>\<open>SyntaxError\<close>, nothing in
  \<^verbatim>\<open>filterRendering\<close> catches it, and no sequence is returned.
\<close>

theorem filterRendering_total_on_parsable_metadata:
  "(list_all metadataParses nodes \<longrightarrow>
      (\<exists>returned. filterRendering ws strip nodes = Inr returned
         \<and> (\<forall>n \<in> set nodes. nodeType n = ELEMENT_NODE \<and> \<not> flaggedAutoGenerated n \<longrightarrow>
               applyToElement strip n \<in> set returned
               \<or> (isParagraph n \<and> returned = childNodes (applyToElement strip n)))
         \<and> (\<forall>n \<in> set nodes. nodeType n = ELEMENT_NODE \<and> \<not> hasAttribute n ''data-mw'' \<longrightarrow>
               applyToElement strip n \<in> set returned
               \<or> (isParagraph n \<and> returned = childNodes (applyToElement strip n)))
         \<and> (\<forall>x \<in> set returned. \<exists>n \<in> set nodes. \<not> flaggedAutoGenerated n
               \<and> (x = applyToElement strip n \<or> x \<in> set (childNodes (applyToElement strip n))))))
   \<and> (\<not> list_all metadataParses nodes \<longrightarrow> filterRendering ws strip nodes = Inl SyntaxError)"
proof (intro conjI impI)
  assume parses: "list_all metadataParses nodes"
  let ?remaining = "trimWhitespace ws (stripElements strip
      (filter (\<lambda>n. \<not> flaggedAutoGenerated n) nodes))"
  have returned: "filterRendering ws strip nodes = Inr (unwrapParagraph ?remaining)"
    using parses by (simp add: filterRendering_characterised)
  have keeps: "applyToElement strip n \<in> set (unwrapParagraph ?remaining)
      \<or> (isParagraph n \<and> unwrapParagraph ?remaining = childNodes (applyToElement strip n))"
    if "n \<in> set nodes" and "nodeType n = ELEMENT_NODE" and "\<not> flaggedAutoGenerated n" for n
    using unwrapParagraph_keeps [OF unflagged_element_remains [OF that, of strip ws]]
    by (simp add: isParagraph_applyToElement)
  have "x \<in> set (stripElements strip (filter (\<lambda>n. \<not> flaggedAutoGenerated n) nodes))
      \<or> (\<exists>y \<in> set (stripElements strip (filter (\<lambda>n. \<not> flaggedAutoGenerated n) nodes)).
            x \<in> set (childNodes y))"
    if "x \<in> set (unwrapParagraph ?remaining)" for x
    using unwrapParagraph_from [OF that] trimWhitespace_subset by blast
  then have from_input: "\<exists>n \<in> set nodes. \<not> flaggedAutoGenerated n
      \<and> (x = applyToElement strip n \<or> x \<in> set (childNodes (applyToElement strip n)))"
    if "x \<in> set (unwrapParagraph ?remaining)" for x
    using that by (fastforce simp: stripElements_map)
  show "\<exists>returned. filterRendering ws strip nodes = Inr returned
         \<and> (\<forall>n \<in> set nodes. nodeType n = ELEMENT_NODE \<and> \<not> flaggedAutoGenerated n \<longrightarrow>
               applyToElement strip n \<in> set returned
               \<or> (isParagraph n \<and> returned = childNodes (applyToElement strip n)))
         \<and> (\<forall>n \<in> set nodes. nodeType n = ELEMENT_NODE \<and> \<not> hasAttribute n ''data-mw'' \<longrightarrow>
               applyToElement strip n \<in> set returned
               \<or> (isParagraph n \<and> returned = childNodes (applyToElement strip n)))
         \<and> (\<forall>x \<in> set returned. \<exists>n \<in> set nodes. \<not> flaggedAutoGenerated n
               \<and> (x = applyToElement strip n \<or> x \<in> set (childNodes (applyToElement strip n))))"
    using returned keeps from_input no_metadata_unflagged by (intro exI [of _ "unwrapParagraph ?remaining"]) blast
next
  assume "\<not> list_all metadataParses nodes"
  then show "filterRendering ws strip nodes = Inl SyntaxError"
    by (simp add: filterRendering_characterised)
qed

theorem filterRendering_total_on_parsable_metadata_witness:
  \<open>filterRendering '' '' (\<lambda>name attrs children. (attrs, children))
      [Element ''div'' [(''data-mw'', ''{"parts":[]}'')] [TextNode ''A''],
       Element ''ol'' [(''data-mw'', ''{"autoGenerated":true}'')] [],
       Element ''div'' [] [TextNode ''B'']]
     = Inr [Element ''div'' [(''data-mw'', ''{"parts":[]}'')] [TextNode ''A''],
            Element ''div'' [] [TextNode ''B'']]
   \<and> filterRendering '' '' (\<lambda>name attrs children. (attrs, children))
      [Element ''div'' [(''data-mw'', ''not json'')] [TextNode ''A'']] = Inl SyntaxError\<close>
  using filterRendering_total_on_parsable_metadata
    [of \<open>[Element ''div'' [(''data-mw'', ''{"parts":[]}'')] [TextNode ''A''],
       Element ''ol'' [(''data-mw'', ''{"autoGenerated":true}'')] [],
       Element ''div'' [] [TextNode ''B'']]\<close> \<open>'' ''\<close> \<open>\<lambda>name attrs children. (attrs, children)\<close>]
    filterRendering_total_on_parsable_metadata
    [of \<open>[Element ''div'' [(''data-mw'', ''not json'')] [TextNode ''A'']]\<close> \<open>'' ''\<close>
      \<open>\<lambda>name attrs children. (attrs, children)\<close>]
  by (simp add: filterRendering_characterised metadataParses_def flaggedAutoGenerated_def
      parse_parts parse_flag parse_not_json truthy_property_def stripElements_def
      trimWhitespace_def isWhitespaceNode_def unwrapParagraph_cases
      ELEMENT_NODE_def TEXT_NODE_def)

text \<open>
  The claim as it was written fails on an element whose \<^verbatim>\<open>data-mw\<close> is no JSON text: the
  call raises and the element is not kept.
\<close>

theorem filterRendering_malformed_metadata_counterexample:
  "filterRendering '' '' (\<lambda>name attrs children. (attrs, children))
     [Element ''div'' [(''data-mw'', ''not json'')] [TextNode ''A'']] = Inl SyntaxError"
  by (simp add: filterRendering_characterised metadataParses_def parse_not_json)

section \<open>The descriptions, part by part\<close>

lemma describePart_resolved:
  "\<not> unresolved mw p \<Longrightarrow>
   \<exists>d. describePart mw p = Inr d \<and> (if d = [] then [] else [d]) = entryText mw p"
  by (cases "templatePage p"; cases "template p")
    (auto simp: describePart_def unresolved_def entryText_def truthy_string_def displayName_def
      split: list.splits option.splits)

lemma describePart_unresolved: "unresolved mw p \<Longrightarrow> describePart mw p = Inl TypeError"
  by (auto simp: describePart_def unresolved_def truthy_string_def split: option.splits)

lemma describeParts_resolved:
  "list_all (\<lambda>p. \<not> unresolved mw p) parts \<Longrightarrow>
   \<exists>descs. map_throwing (describePart mw) parts = Inr descs
     \<and> filter (\<lambda>desc. desc \<noteq> []) descs = concat (map (entryText mw) parts)"
proof (induction parts)
  case Nil
  then show ?case by simp
next
  case (Cons p parts)
  then obtain descs where descs: "map_throwing (describePart mw) parts = Inr descs"
      "filter (\<lambda>desc. desc \<noteq> []) descs = concat (map (entryText mw) parts)"
    by auto
  from Cons.prems obtain d where d: "describePart mw p = Inr d"
      "(if d = [] then [] else [d]) = entryText mw p"
    using describePart_resolved [of mw p] by auto
  show ?case
    using descs d by (auto split: if_splits)
qed

lemma describeParts_unresolved:
  "\<not> list_all (\<lambda>p. \<not> unresolved mw p) parts \<Longrightarrow>
   map_throwing (describePart mw) parts = Inl TypeError"
proof (induction parts)
  case Nil
  then show ?case by simp
next
  case (Cons p parts)
  show ?case
  proof (cases "unresolved mw p")
    case True
    then show ?thesis by (simp add: describePart_unresolved)
  next
    case False
    then obtain d where "describePart mw p = Inr d"
      using describePart_resolved [of mw p] by auto
    with Cons False show ?thesis by simp
  qed
qed

lemma getDescription_characterised:
  "fst (getDescription getPartsList mw model) =
     (if list_all (\<lambda>p. \<not> unresolved mw p) (fst (getPartsList model))
      then Inr (join (comma_separator mw) (concat (map (entryText mw) (fst (getPartsList model)))))
      else Inl TypeError)"
proof (cases "list_all (\<lambda>p. \<not> unresolved mw p) (fst (getPartsList model))")
  case True
  then obtain descs where
    "map_throwing (describePart mw) (fst (getPartsList model)) = Inr descs"
    "filter (\<lambda>desc. desc \<noteq> []) descs = concat (map (entryText mw) (fst (getPartsList model)))"
    using describeParts_resolved by blast
  with True show ?thesis
    by (cases "getPartsList model") (simp add: getDescription_def)
next
  case False
  then show ?thesis
    by (cases "getPartsList model") (simp add: getDescription_def describeParts_unresolved)
qed

lemma describePartDom_resolved:
  "\<not> unresolved mw p \<Longrightarrow>
   \<exists>d. describePartDom mw p = Inr d \<and> (case d of None \<Rightarrow> [] | Some n \<Rightarrow> [n]) = entryNode mw p"
  by (cases "templatePage p"; cases "template p")
    (auto simp: describePartDom_def unresolved_def entryNode_def truthy_string_def displayName_def
      pageUrl_def createElement_def createTextNode_def
      split: list.splits option.splits)

lemma describePartDom_unresolved: "unresolved mw p \<Longrightarrow> describePartDom mw p = Inl TypeError"
  by (auto simp: describePartDom_def unresolved_def truthy_string_def split: option.splits)

lemma describePartsDom_resolved:
  "list_all (\<lambda>p. \<not> unresolved mw p) parts \<Longrightarrow>
   \<exists>descs. map_throwing (describePartDom mw) parts = Inr descs
     \<and> withoutNull descs = concat (map (entryNode mw) parts)"
proof (induction parts)
  case Nil
  then show ?case by simp
next
  case (Cons p parts)
  then obtain descs where descs: "map_throwing (describePartDom mw) parts = Inr descs"
      "withoutNull descs = concat (map (entryNode mw) parts)"
    by auto
  from Cons.prems obtain d where d: "describePartDom mw p = Inr d"
      "(case d of None \<Rightarrow> [] | Some n \<Rightarrow> [n]) = entryNode mw p"
    using describePartDom_resolved [of mw p] by auto
  show ?case
    using descs d by (auto split: option.splits)
qed

lemma describePartsDom_unresolved:
  "\<not> list_all (\<lambda>p. \<not> unresolved mw p) parts \<Longrightarrow>
   map_throwing (describePartDom mw) parts = Inl TypeError"
proof (induction parts)
  case Nil
  then show ?case by simp
next
  case (Cons p parts)
  show ?case
  proof (cases "unresolved mw p")
    case True
    then show ?thesis by (simp add: describePartDom_unresolved)
  next
    case False
    then obtain d where "describePartDom mw p = Inr d"
      using describePartDom_resolved [of mw p] by auto
    with Cons False show ?thesis by simp
  qed
qed

lemma separated_Cons: "separated s (x # rest) = x # concat (map (\<lambda>y. [s, y]) rest)"
  by (induction rest arbitrary: x) auto

lemma appendNodes_later:
  "i \<noteq> 0 \<Longrightarrow>
   appendNodes sep nodes i (Element name attrs children) =
     Element name attrs (children @ concat (map (\<lambda>y. [TextNode sep, y]) nodes))"
  by (induction nodes arbitrary: i children) (auto simp: createTextNode_def)

lemma appendNodes_separated:
  "appendNodes sep nodes 0 (createElement name) = Element name [] (separated (TextNode sep) nodes)"
  by (cases nodes) (simp_all add: createElement_def separated_Cons appendNodes_later)

lemma getDescriptionDom_characterised:
  "fst (getDescriptionDom getPartsList mw retarget model) =
     (if list_all (\<lambda>p. \<not> unresolved mw p) (fst (getPartsList model))
      then Inr (applyToElement retarget (Element ''span'' []
             (separated (TextNode (comma_separator mw))
               (concat (map (entryNode mw) (fst (getPartsList model)))))))
      else Inl TypeError)"
proof (cases "list_all (\<lambda>p. \<not> unresolved mw p) (fst (getPartsList model))")
  case True
  then obtain descs where
    "map_throwing (describePartDom mw) (fst (getPartsList model)) = Inr descs"
    "withoutNull descs = concat (map (entryNode mw) (fst (getPartsList model)))"
    using describePartsDom_resolved by blast
  with True show ?thesis
    by (cases "getPartsList model") (simp add: getDescriptionDom_def appendNodes_separated)
next
  case False
  then show ?thesis
    by (cases "getPartsList model") (simp add: getDescriptionDom_def describePartsDom_unresolved)
qed

lemma join_separated: "join sep entries = concat (separated sep entries)"
  by (induction sep entries rule: join.induct) simp_all

lemma applyToElement_span:
  "applyToElement retarget (Element ''span'' [] children) =
     (case retarget ''span'' [] children of (attrs', children') \<Rightarrow> Element ''span'' attrs' children')"
  by simp

text \<open>
  Claim C5, as amended. When every \<open>templatePage\<close> that is set names a title, the
  plain-text description is the entries of the parts with the comma separator between
  each two: for a part with a \<open>templatePage\<close> the display name of its title relative to
  the template namespace, for a part that has only a \<open>template\<close> name that name, and no
  entry for a part with neither, so that no separator stands where a part was left out.
  The parts \<^verbatim>\<open>[{templatePage:"Foo"}, {template:"bar"}, {}]\<close> are described as \<^verbatim>\<open>Foo, bar\<close>
  when the title of \<^verbatim>\<open>Foo\<close> has the display name \<^verbatim>\<open>Foo\<close> and the separator is a comma and
  a space. When a \<open>templatePage\<close> that is set names no title, \<^verbatim>\<open>getDescription\<close> raises
  \<^verbatim>\<open>TypeError\<close> and describes no part.
\<close>

theorem getDescription_lists_parts:
  "fst (getDescription getPartsList mw model) =
     (if list_all (\<lambda>p. \<not> unresolved mw p) (fst (getPartsList model))
      then Inr (concat (separated (comma_separator mw)
             (concat (map (entryText mw) (fst (getPartsList model))))))
      else Inl TypeError)
   \<and> (fst (getPartsList model) =
         [\<lparr>templatePage = Some ''Foo'', template = None\<rparr>,
          \<lparr>templatePage = None, template = Some ''bar''\<rparr>,
          \<lparr>templatePage = None, template = None\<rparr>]
       \<and> newFromText mw ''Foo'' = Some title
       \<and> getRelativeText mw title (wgNamespaceIds_template mw) = ''Foo''
       \<and> comma_separator mw = '', '' \<longrightarrow>
      fst (getDescription getPartsList mw model) = Inr ''Foo, bar'')"
  by (simp add: getDescription_characterised join_separated unresolved_def entryText_def
      displayName_def)

theorem getDescription_lists_parts_witness:
  "fst (getDescription (\<lambda>parts. (parts, parts))
     \<lparr>newFromText = (\<lambda>text. if text = [] then None else Some text),
      getRelativeText = (\<lambda>title ns. title),
      getUrl = (\<lambda>title. ''/wiki/Template:'' @ title),
      wgNamespaceIds_template = 10,
      comma_separator = '', ''\<rparr>
     [\<lparr>templatePage = Some ''Foo'', template = None\<rparr>,
      \<lparr>templatePage = None, template = Some ''bar''\<rparr>,
      \<lparr>templatePage = None, template = None\<rparr>])
   = Inr ''Foo, bar''
   \<and> fst (getDescription (\<lambda>parts. (parts, parts))
     \<lparr>newFromText = (\<lambda>text. if text = [] then None else Some text),
      getRelativeText = (\<lambda>title ns. title),
      getUrl = (\<lambda>title. ''/wiki/Template:'' @ title),
      wgNamespaceIds_template = 10,
      comma_separator = '', ''\<rparr>
     [\<lparr>templatePage = Some '''', template = Some ''#if:''\<rparr>,
      \<lparr>templatePage = None, template = Some ''''\<rparr>,
      \<lparr>templatePage = Some ''Infobox'', template = Some ''infobox''\<rparr>])
   = Inr ''#if:, Infobox''"
  using getDescription_lists_parts
    [of "\<lambda>parts. (parts, parts)"
     "\<lparr>newFromText = (\<lambda>text. if text = [] then None else Some text),
      getRelativeText = (\<lambda>title ns. title),
      getUrl = (\<lambda>title. ''/wiki/Template:'' @ title),
      wgNamespaceIds_template = 10,
      comma_separator = '', ''\<rparr>"
     "[\<lparr>templatePage = Some ''Foo'', template = None\<rparr>,
      \<lparr>templatePage = None, template = Some ''bar''\<rparr>,
      \<lparr>templatePage = None, template = None\<rparr>]" "''Foo''"]
    getDescription_lists_parts
    [of "\<lambda>parts. (parts, parts)"
     "\<lparr>newFromText = (\<lambda>text. if text = [] then None else Some text),
      getRelativeText = (\<lambda>title ns. title),
      getUrl = (\<lambda>title. ''/wiki/Template:'' @ title),
      wgNamespaceIds_template = 10,
      comma_separator = '', ''\<rparr>"
     "[\<lparr>templatePage = Some '''', template = Some ''#if:''\<rparr>,
      \<lparr>templatePage = None, template = Some ''''\<rparr>,
      \<lparr>templatePage = Some ''Infobox'', template = Some ''infobox''\<rparr>]" "''Foo''"]
  by (simp add: unresolved_def entryText_def displayName_def)

text \<open>
  The claim as it was written fails on a list with a \<open>templatePage\<close> that names no title,
  as one with a character that titles cannot have: nothing is described, not even the
  part before it.
\<close>

theorem getDescription_unresolved_counterexample:
  "fst (getDescription (\<lambda>parts. (parts, parts))
     \<lparr>newFromText = (\<lambda>text. if CHR ''<'' \<in> set text then None else Some text),
      getRelativeText = (\<lambda>title ns. title),
      getUrl = (\<lambda>title. ''/wiki/Template:'' @ title),
      wgNamespaceIds_template = 10,
      comma_separator = '', ''\<rparr>
     [\<lparr>templatePage = Some ''Foo'', template = None\<rparr>,
      \<lparr>templatePage = Some ''Bad<title'', template = Some ''bad''\<rparr>])
   = Inl TypeError"
  by (simp add: getDescription_def describePart_def truthy_string_def)

text \<open>
  Claim C6, as amended. Under the same condition the rich description is one \<^verbatim>\<open>span\<close>,
  handed to \<^verbatim>\<open>ve.targetLinksToNewWindow\<close> before it is returned, whose children are the
  nodes of the parts with a text node of the separator between each two: for a part with
  a \<open>templatePage\<close> a link with the URL of the title as its \<^verbatim>\<open>href\<close> and the display name
  as its text, for a part that has only a \<open>template\<close> name a text node of that name, and
  no node for a part with neither. The parts of the example give a link for \<^verbatim>\<open>Foo\<close>, the
  separator and the text \<^verbatim>\<open>bar\<close>. When a \<open>templatePage\<close> that is set names no title,
  \<^verbatim>\<open>getDescriptionDom\<close> raises \<^verbatim>\<open>TypeError\<close> and returns no element.
\<close>

theorem getDescriptionDom_links_parts:
  "fst (getDescriptionDom getPartsList mw retarget model) =
     (if list_all (\<lambda>p. \<not> unresolved mw p) (fst (getPartsList model))
      then Inr (case retarget ''span'' []
                  (separated (TextNode (comma_separator mw))
                    (concat (map (entryNode mw) (fst (getPartsList model))))) of
                (attrs', children') \<Rightarrow> Element ''span'' attrs' children')
      else Inl TypeError)
   \<and> (fst (getPartsList model) =
         [\<lparr>templatePage = Some ''Foo'', template = None\<rparr>,
          \<lparr>templatePage = None, template = Some ''bar''\<rparr>,
          \<lparr>templatePage = None, template = None\<rparr>]
       \<and> newFromText mw ''Foo'' = Some title
       \<and> getRelativeText mw title (wgNamespaceIds_template mw) = ''Foo''
       \<and> getUrl mw title = url
       \<and> comma_separator mw = '', '' \<longrightarrow>
      fst (getDescriptionDom getPartsList mw retarget model) =
        Inr (case retarget ''span'' []
               [Element ''a'' [(''href'', url)] [TextNode ''Foo''], TextNode '', '', TextNode ''bar''] of
             (attrs', children') \<Rightarrow> Element ''span'' attrs' children'))"
  by (simp add: getDescriptionDom_characterised unresolved_def entryNode_def displayName_def
      pageUrl_def)

theorem getDescriptionDom_links_parts_witness:
  "fst (getDescriptionDom (\<lambda>parts. (parts, parts))
     \<lparr>newFromText = (\<lambda>text. if text = [] then None else Some text),
      getRelativeText = (\<lambda>title ns. title),
      getUrl = (\<lambda>title. ''/wiki/Template:'' @ title),
      wgNamespaceIds_template = 10,
      comma_separator = '', ''\<rparr>
     targetLinksToNewWindow_model
     [\<lparr>templatePage = Some ''Foo'', template = None\<rparr>,
      \<lparr>templatePage = None, template = Some ''bar''\<rparr>,
      \<lparr>templatePage = None, template = None\<rparr>])
   = Inr (Element ''span'' []
       [Element ''a'' [(''href'', ''/wiki/Template:Foo''), (''target'', ''_blank'')] [TextNode ''Foo''],
        TextNode '', '',
        TextNode ''bar''])"
  using getDescriptionDom_links_parts
    [of "\<lambda>parts. (parts, parts)"
     "\<lparr>newFromText = (\<lambda>text. if text = [] then None else Some text),
      getRelativeText = (\<lambda>title ns. title),
      getUrl = (\<lambda>title. ''/wiki/Template:'' @ title),
      wgNamespaceIds_template = 10,
      comma_separator = '', ''\<rparr>"
     targetLinksToNewWindow_model
     "[\<lparr>templatePage = Some ''Foo'', template = None\<rparr>,
      \<lparr>templatePage = None, template = Some ''bar''\<rparr>,
      \<lparr>templatePage = None, template = None\<rparr>]" "''Foo''" "''/wiki/Template:Foo''"]
  by (simp add: unresolved_def entryNode_def displayName_def pageUrl_def
      targetLinksToNewWindow_model_def toLowerCase_def lower_char_def)

text \<open>
  The claim as it was written fails on the same list: no element is returned, and so no
  link for the part before the one whose \<open>templatePage\<close> names no title.
\<close>

theorem getDescriptionDom_unresolved_counterexample:
  "fst (getDescriptionDom (\<lambda>parts. (parts, parts))
     \<lparr>newFromText = (\<lambda>text. if CHR ''<'' \<in> set text then None else Some text),
      getRelativeText = (\<lambda>title ns. title),
      getUrl = (\<lambda>title. ''/wiki/Template:'' @ title),
      wgNamespaceIds_template = 10,
      comma_separator = '', ''\<rparr>
     targetLinksToNewWindow_model
     [\<lparr>templatePage = Some ''Foo'', template = None\<rparr>,
      \<lparr>templatePage = Some ''Bad<title'', template = Some ''bad''\<rparr>])
   = Inl TypeError"
  by (simp add: getDescriptionDom_def describePartDom_def truthy_string_def createElement_def)

lemma entries_empty:
  "list_all (\<lambda>p. (templatePage p = None \<or> templatePage p = Some [])
       \<and> (template p = None \<or> template p = Some [])) parts \<Longrightarrow>
   list_all (\<lambda>p. \<not> unresolved mw p) parts
   \<and> concat (map (entryText mw) parts) = []
   \<and> concat (map (entryNode mw) parts) = []"
  by (induction parts)
    (auto simp: unresolved_def entryText_def entryNode_def split: option.splits list.splits)

text \<open>
  Claim C10, as amended. When the list of parts is empty, or no part has a
  \<open>templatePage\<close> or a \<open>template\<close> name (each missing or empty), the plain-text
  description is the empty string and the rich description is the \<^verbatim>\<open>span\<close> without
  children that is handed to \<^verbatim>\<open>ve.targetLinksToNewWindow\<close>: an element, with no separator
  in it, and the empty \<^verbatim>\<open>span\<close> itself when that helper leaves a container without links
  as it is. A part whose \<open>templatePage\<close> is set and names no title is not among these:
  with such a part both descriptions raise \<^verbatim>\<open>TypeError\<close>.
\<close>

theorem descriptions_of_no_parts:
  "(list_all (\<lambda>p. (templatePage p = None \<or> templatePage p = Some [])
        \<and> (template p = None \<or> template p = Some [])) (fst (getPartsList model)) \<longrightarrow>
      fst (getDescription getPartsList mw model) = Inr []
      \<and> fst (getDescriptionDom getPartsList mw retarget model) =
          Inr (case retarget ''span'' [] [] of
                 (attrs', children') \<Rightarrow> Element ''span'' attrs' children')
      \<and> (retarget ''span'' [] [] = ([], []) \<longrightarrow>
          fst (getDescriptionDom getPartsList mw retarget model) = Inr (Element ''span'' [] [])))
   \<and> (\<not> list_all (\<lambda>p. \<not> unresolved mw p) (fst (getPartsList model)) \<longrightarrow>
      fst (getDescription getPartsList mw model) = Inl TypeError
      \<and> fst (getDescriptionDom getPartsList mw retarget model) = Inl TypeError)"
proof (intro conjI impI)
  assume none: "list_all (\<lambda>p. (templatePage p = None \<or> templatePage p = Some [])
        \<and> (template p = None \<or> template p = Some [])) (fst (getPartsList model))"
  have resolved: "list_all (\<lambda>p. \<not> unresolved mw p) (fst (getPartsList model))"
    and texts: "concat (map (entryText mw) (fst (getPartsList model))) = []"
    and nodes: "concat (map (entryNode mw) (fst (getPartsList model))) = []"
    using entries_empty [OF none, of mw] by blast+
  show "fst (getDescription getPartsList mw model) = Inr []"
    using resolved by (simp only: getDescription_characterised texts if_True join.simps)
  show rich: "fst (getDescriptionDom getPartsList mw retarget model) =
       Inr (case retarget ''span'' [] [] of
              (attrs', children') \<Rightarrow> Element ''span'' attrs' children')"
    using resolved
    by (simp only: getDescriptionDom_characterised nodes if_True separated.simps
        applyToElement_span)
  assume "retarget ''span'' [] [] = ([], [])"
  with rich show "fst (getDescriptionDom getPartsList mw retarget model) = Inr (Element ''span'' [] [])"
    by simp
next
  assume "\<not> list_all (\<lambda>p. \<not> unresolved mw p) (fst (getPartsList model))"
  then show "fst (getDescription getPartsList mw model) = Inl TypeError"
    and "fst (getDescriptionDom getPartsList mw retarget model) = Inl TypeError"
    by (simp_all add: getDescription_characterised getDescriptionDom_characterised)
qed

theorem descriptions_of_no_parts_witness:
  "fst (getDescription (\<lambda>parts. (parts, parts))
     \<lparr>newFromText = (\<lambda>text. if text = [] then None else Some text),
      getRelativeText = (\<lambda>title ns. title),
      getUrl = (\<lambda>title. ''/wiki/Template:'' @ title),
      wgNamespaceIds_template = 10,
      comma_separator = '', ''\<rparr>
     [\<lparr>templatePage = None, template = None\<rparr>, \<lparr>templatePage = Some '''', template = Some ''''\<rparr>])
   = Inr []
   \<and> fst (getDescriptionDom (\<lambda>parts. (parts, parts))
     \<lparr>newFromText = (\<lambda>text. if text = [] then None else Some text),
      getRelativeText = (\<lambda>title ns. title),
      getUrl = (\<lambda>title. ''/wiki/Template:'' @ title),
      wgNamespaceIds_template = 10,
      comma_separator = '', ''\<rparr>
     targetLinksToNewWindow_model
     [\<lparr>templatePage = None, template = None\<rparr>, \<lparr>templatePage = Some '''', template = Some ''''\<rparr>])
   = Inr (Element ''span'' [] [])
   \<and> fst (getDescription (\<lambda>parts. (parts, parts))
     \<lparr>newFromText = (\<lambda>text. if text = [] then None else Some text),
      getRelativeText = (\<lambda>title ns. title),
      getUrl = (\<lambda>title. ''/wiki/Template:'' @ title),
      wgNamespaceIds_template = 10,
      comma_separator = '', ''\<rparr>
     []) = Inr []"
  using descriptions_of_no_parts
    [of "\<lambda>parts. (parts, parts)"
     "[\<lparr>templatePage = None, template = None\<rparr>, \<lparr>templatePage = Some '''', template = Some ''''\<rparr>]"
     "\<lparr>newFromText = (\<lambda>text. if text = [] then None else Some text),
      getRelativeText = (\<lambda>title ns. title),
      getUrl = (\<lambda>title. ''/wiki/Template:'' @ title),
      wgNamespaceIds_template = 10,
      comma_separator = '', ''\<rparr>"
     targetLinksToNewWindow_model]
    descriptions_of_no_parts
    [of "\<lambda>parts. (parts, parts)" "[]"
     "\<lparr>newFromText = (\<lambda>text. if text = [] then None else Some text),
      getRelativeText = (\<lambda>title ns. title),
      getUrl = (\<lambda>title. ''/wiki/Template:'' @ title),
      wgNamespaceIds_template = 10,
      comma_separator = '', ''\<rparr>"
     targetLinksToNewWindow_model]
  by (simp add: targetLinksToNewWindow_model_def)

text \<open>
  The claim as it was written fails on a part that lacks a resolvable \<open>templatePage\<close>
  because the one it has names no title, and that has no \<open>template\<close> name: neither
  description is returned.
\<close>

theorem descriptions_of_no_parts_counterexample:
  "fst (getDescription (\<lambda>parts. (parts, parts))
     \<lparr>newFromText = (\<lambda>text. if CHR ''<'' \<in> set text then None else Some text),
      getRelativeText = (\<lambda>title ns. title),
      getUrl = (\<lambda>title. ''/wiki/Template:'' @ title),
      wgNamespaceIds_template = 10,
      comma_separator = '', ''\<rparr>
     [\<lparr>templatePage = Some ''Bad<title'', template = None\<rparr>])
   = Inl TypeError
   \<and> fst (getDescriptionDom (\<lambda>parts. (parts, parts))
     \<lparr>newFromText = (\<lambda>text. if CHR ''<'' \<in> set text then None else Some text),
      getRelativeText = (\<lambda>title ns. title),
      getUrl = (\<lambda>title. ''/wiki/Template:'' @ title),
      wgNamespaceIds_template = 10,
      comma_separator = '', ''\<rparr>
     targetLinksToNewWindow_model
     [\<lparr>templatePage = Some ''Bad<title'', template = None\<rparr>])
   = Inl TypeError"
  by (simp add: getDescription_def getDescriptionDom_def describePart_def describePartDom_def
      truthy_string_def)

section \<open>The deferred and its callbacks\<close>

lemma getProp_success:
  "(getProp_visualeditor_result response = Some ''success'') = reportsSuccess response"
  by (simp add: getProp_visualeditor_result_def reportsSuccess_def split: option.splits)

lemma onParseSuccess_unsuccessful:
  "\<not> reportsSuccess response \<Longrightarrow>
   onParseSuccess ws strip parseHTML getHtml attached d response = (None, reject d, attached)"
  by (simp add: onParseSuccess_def getProp_success onParseError_def)

lemma onParseSuccess_successful:
  "reportsSuccess response \<Longrightarrow>
   fst (onParseSuccess ws strip parseHTML getHtml attached d response) =
     (case filterRendering ws strip (parsedContent parseHTML getHtml attached response) of
        Inl e \<Rightarrow> Some e | Inr filtered \<Rightarrow> None)
   \<and> fst (snd (onParseSuccess ws strip parseHTML getHtml attached d response)) =
     (case filterRendering ws strip (parsedContent parseHTML getHtml attached response) of
        Inl e \<Rightarrow> d | Inr filtered \<Rightarrow> resolve d filtered)"
  by (cases attached)
    (auto simp: onParseSuccess_def getProp_success parsedContent_def
      split: prod.splits sum.splits option.splits)

text \<open>
  Claim C2, as amended. When the request ends, the pending deferred of
  \<^verbatim>\<open>generateContents\<close> is rejected, with no value, when the request failed or the response
  does not report success (the status is missing or is not \<^verbatim>\<open>success\<close>); it is resolved
  with the filtered nodes when the response reports success and \<^verbatim>\<open>filterRendering\<close>
  returns on the parsed content; and it stays pending, while the exception of
  \<^verbatim>\<open>filterRendering\<close> leaves the callback, when \<^verbatim>\<open>filterRendering\<close> raises. No exception
  leaves the callback in the first two cases.
\<close>

theorem generateContents_outcome:
  "fst (snd (settle ws strip parseHTML getHtml attached Pending out)) =
     (case out of
        Fail \<Rightarrow> Rejected
      | Done response \<Rightarrow>
          (if \<not> reportsSuccess response then Rejected
           else (case filterRendering ws strip
                        (parsedContent parseHTML getHtml attached response) of
                   Inr filtered \<Rightarrow> Resolved filtered
                 | Inl e \<Rightarrow> Pending)))
   \<and> fst (settle ws strip parseHTML getHtml attached Pending out) =
     (case out of
        Fail \<Rightarrow> None
      | Done response \<Rightarrow>
          (if \<not> reportsSuccess response then None
           else (case filterRendering ws strip
                        (parsedContent parseHTML getHtml attached response) of
                   Inr filtered \<Rightarrow> None
                 | Inl e \<Rightarrow> Some e)))"
proof (cases out)
  case Fail
  then show ?thesis by (simp add: onParseError_def)
next
  case (Done response)
  show ?thesis
  proof (cases "reportsSuccess response")
    case True
    with Done show ?thesis
      using onParseSuccess_successful [of response ws strip parseHTML getHtml attached Pending]
      by (auto split: sum.splits)
  next
    case False
    with Done show ?thesis
      by (simp add: onParseSuccess_unsuccessful)
  qed
qed

theorem generateContents_outcome_witness:
  "fst (snd (settle '' '' (\<lambda>name attrs children. (attrs, children))
     (\<lambda>html context. if html = Some ''<p>Hi</p>'' then Some [Element ''P'' [] [TextNode ''Hi'']] else None)
     (\<lambda>model. (None, model)) (Some ()) Pending
     (Done \<lparr>visualeditor = Some \<lparr>result = Some ''success'', content = Some ''<p>Hi</p>''\<rparr>\<rparr>)))
   = Resolved [TextNode ''Hi'']
   \<and> fst (snd (settle '' '' (\<lambda>name attrs children. (attrs, children))
     (\<lambda>html context. if html = Some ''<p>Hi</p>'' then Some [Element ''P'' [] [TextNode ''Hi'']] else None)
     (\<lambda>model. (None, model)) (Some ()) Pending
     (Done \<lparr>visualeditor = Some \<lparr>result = None, content = Some ''<p>Hi</p>''\<rparr>\<rparr>)))
   = Rejected
   \<and> fst (snd (settle '' '' (\<lambda>name attrs children. (attrs, children))
     (\<lambda>html context. if html = Some ''<p>Hi</p>'' then Some [Element ''P'' [] [TextNode ''Hi'']] else None)
     (\<lambda>model. (None, model)) (Some ()) Pending
     (Done \<lparr>visualeditor = Some \<lparr>result = Some ''error'', content = None\<rparr>\<rparr>)))
   = Rejected
   \<and> fst (snd (settle '' '' (\<lambda>name attrs children. (attrs, children))
     (\<lambda>html context. if html = Some ''<p>Hi</p>'' then Some [Element ''P'' [] [TextNode ''Hi'']] else None)
     (\<lambda>model. (None, model)) (Some ()) Pending
     (Done \<lparr>visualeditor = None\<rparr>)))
   = Rejected
   \<and> fst (snd (settle '' '' (\<lambda>name attrs children. (attrs, children))
     (\<lambda>html context. if html = Some ''<p>Hi</p>'' then Some [Element ''P'' [] [TextNode ''Hi'']] else None)
     (\<lambda>model. (None, model)) (Some ()) Pending Fail))
   = Rejected"
  using generateContents_outcome
    [of "'' ''" "\<lambda>name attrs children. (attrs, children)"
      "\<lambda>html context. if html = Some ''<p>Hi</p>'' then Some [Element ''P'' [] [TextNode ''Hi'']] else None"
      "\<lambda>model. (None, model)" "Some ()"
      "Done \<lparr>visualeditor = Some \<lparr>result = Some ''success'', content = Some ''<p>Hi</p>''\<rparr>\<rparr>"]
  by (simp add: reportsSuccess_def parsedContent_def onParseSuccess_def onParseError_def
      getProp_visualeditor_result_def filterRendering_characterised metadataParses_def
      flaggedAutoGenerated_def stripElements_def trimWhitespace_def isWhitespaceNode_def
      unwrapParagraph_cases isParagraph_def ELEMENT_NODE_def TEXT_NODE_def)

text \<open>
  The claim as it was written fails on a response that reports success and whose HTML
  holds an element with a \<^verbatim>\<open>data-mw\<close> that is no JSON text: the deferred is neither
  resolved nor rejected, and the exception leaves the callback.
\<close>

theorem generateContents_outcome_counterexample:
  \<open>settle '' '' (\<lambda>name attrs children. (attrs, children))
     (\<lambda>html context.
        if html = Some ''<div data-mw="not json">Hi</div>''
        then Some [Element ''DIV'' [(''data-mw'', ''not json'')] [TextNode ''Hi'']]
        else None)
     (\<lambda>model. (None, model)) (Some ()) Pending
     (Done \<lparr>visualeditor =
        Some \<lparr>result = Some ''success'',
              content = Some ''<div data-mw="not json">Hi</div>''\<rparr>\<rparr>)
   = (Some SyntaxError, Pending, Some ())\<close>
  by (simp add: onParseSuccess_def getProp_visualeditor_result_def
      filterRendering_characterised metadataParses_def parse_not_json)

section \<open>What is left of the rendered elements\<close>

lemma matches_selector_detach: "matches_selector (detach n) = matches_selector n"
  by (cases n) (simp_all add: matches_selector_def)

lemma detach_removes_nested:
  "list_all (\<lambda>d. \<not> matches_selector d) (descendants (detach n))"
  "list_all (\<lambda>d. \<not> matches_selector d) (descendants_of_list (detach_children children))"
  by (induction n and children rule: detach_detach_children.induct)
    (simp_all add: matches_selector_detach)

lemma detach_keeps_the_rest:
  "list_all (\<lambda>d. \<not> matches_selector d) (descendants n) \<Longrightarrow> detach n = n"
  "list_all (\<lambda>d. \<not> matches_selector d) (descendants_of_list children) \<Longrightarrow>
   detach_children children = children"
  by (induction n and children rule: detach_detach_children.induct) simp_all

lemma without_detach:
  "(\<forall>d \<in> set (descendants n). d \<in> set removed \<longleftrightarrow> matches_selector d) \<Longrightarrow>
   without removed n = detach n"
  "(\<forall>d \<in> set (descendants_of_list children). d \<in> set removed \<longleftrightarrow> matches_selector d) \<Longrightarrow>
   without_children removed children = detach_children children"
  by (induction removed n and removed children rule: without_without_children.induct) auto

lemma selected_descendants:
  assumes "n \<in> set domElements" and "d \<in> set (descendants n)"
  shows "d \<in> set (jQuery_addBack (jQuery_find domElements) domElements) \<longleftrightarrow> matches_selector d"
  using assms by (auto simp: jQuery_addBack_def jQuery_find_def)

lemma filterRenderedDomElements_detach:
  "filterRenderedDomElements domElements = map detach domElements"
  unfolding filterRenderedDomElements_def Let_def
  by (rule map_cong [OF refl]) (rule without_detach, simp add: selected_descendants)

lemma filterRenderedDomElements_nested:
  "length (filterRenderedDomElements domElements) = length domElements
   \<and> list_all (\<lambda>n. list_all (\<lambda>d. \<not> matches_selector d) (descendants n))
       (filterRenderedDomElements domElements)
   \<and> map matches_selector (filterRenderedDomElements domElements)
     = map matches_selector domElements"
  by (induction domElements)
    (simp_all add: filterRenderedDomElements_detach detach_removes_nested matches_selector_detach)

text \<open>
  Claim C7 does not hold for the elements given at the top level. A \<^verbatim>\<open>style\<close> element
  without the \<^verbatim>\<open>data-mw-deduplicate\<close> marker, or a \<^verbatim>\<open>link\<close> without the markers, that is
  itself one of the given elements is still in the array that is returned, while the
  same element below a given element is removed and a marked one is kept.
\<close>

theorem filterRenderedDomElements_top_level:
  "matches_selector (Element ''style'' [] [TextNode ''body { display: none }''])
   \<and> filterRenderedDomElements [Element ''style'' [] [TextNode ''body { display: none }'']]
     = [Element ''style'' [] [TextNode ''body { display: none }'']]
   \<and> filterRenderedDomElements
       [Element ''div'' [] [Element ''style'' [] [TextNode ''body { display: none }''],
          Element ''style'' [(''data-mw-deduplicate'', ''TemplateStyles:r1'')] [TextNode ''.a {}''],
          TextNode ''x'']]
     = [Element ''div'' []
          [Element ''style'' [(''data-mw-deduplicate'', ''TemplateStyles:r1'')] [TextNode ''.a {}''],
           TextNode ''x'']]
   \<and> filterRenderedDomElements
       [Element ''link'' [(''rel'', ''mw:PageProp/Category''), (''href'', ''./Category:Foo'')] []]
     = [Element ''link'' [(''rel'', ''mw:PageProp/Category''), (''href'', ''./Category:Foo'')] []]"
  by (simp add: filterRenderedDomElements_def jQuery_find_def jQuery_addBack_def
      matches_selector_def attr_prefix_def attr_word_ci_def startsWith_def toLowerCase_def
      lower_char_def)

end
